theory Spec2Isabelle
  imports Main
begin

unbundle bit_operations_syntax

section \<open>The toolkit state the customization layer acts on\<close>

text \<open>
  The sources under verification are \<^verbatim>\<open>qnykAorticAppMainWindow.cxx\<close>,
  \<^verbatim>\<open>qnykAorticAppMainWindow.h\<close> and \<^verbatim>\<open>qnykAorticAppMainWindow_p.h\<close>.
  They subclass the host platform's main window (\<^verbatim>\<open>qSlicerMainWindow\<close> and its
  private-implementation class \<^verbatim>\<open>qSlicerMainWindowPrivate\<close>) and call the widget
  toolkit. Neither the host classes nor the toolkit belong to the repository, so
  the host's methods are parameters of the model and the toolkit's objects are
  records in typed heaps: one heap per C++ class, a pointer being an address in
  the heap of its static type. Dereferencing a pointer that denotes no object
  (a null or dangling pointer) is an error result.
\<close>

type_synonym ptr = nat

datatype qobject_ref =
    MainWindowRef ptr
  | ActionRef ptr
  | MenuRef ptr
  | MenuBarRef ptr
  | LabelRef ptr
  | WidgetRef ptr
  | LayoutRef ptr
  | DockWidgetRef ptr

datatype error =
    InvalidPointer qobject_ref
  | NoApplication
  | HostError nat

datatype QPixmap = NullPixmap | Pixmap nat nat

fun isNull :: "QPixmap \<Rightarrow> bool" where
  "isNull NullPixmap = True"
| "isNull (Pixmap w h) = False"

fun size_of :: "QPixmap \<Rightarrow> nat \<times> nat" where
  "size_of NullPixmap = (0, 0)"
| "size_of (Pixmap w h) = (w, h)"

datatype QIcon = NullIcon | IconFile string

datatype ApplicationAttribute = AA_UseHighDpiPixmaps | AA_Other nat

datatype AlignmentFlag = AlignLeft | AlignRight | AlignHCenter | AlignTop | AlignBottom | AlignVCenter

datatype debug_token = DText string | DSize "nat \<times> nat"

datatype layout_item = WidgetItem qobject_ref | StretchItem nat

type_synonym margins = "int \<times> int \<times> int \<times> int"

record qSlicerApplication =
  applicationName :: string

record QMainWindow =
  mw_windowIcon :: QIcon

record QAction =
  act_parent :: "qobject_ref option"
  act_objectName :: string
  act_text :: string

record QMenu =
  menu_actions :: "ptr list"
  menu_visible :: bool

record QMenuBar =
  bar_visible :: bool

text \<open>
  A label's pixmap and alignment are \<open>None\<close> until the program sets them (no
  pixmap; the toolkit's default alignment). \<open>lbl_visible\<close> is the flag the program
  sets with \<^verbatim>\<open>setVisible\<close>.
\<close>

record QLabel =
  lbl_parent :: "qobject_ref option"
  lbl_objectName :: string
  lbl_pixmap :: "QPixmap option"
  lbl_alignment :: "AlignmentFlag set option"
  lbl_contentsMargins :: margins
  lbl_styleSheet :: string
  lbl_visible :: bool

record QWidget =
  wdg_parent :: "qobject_ref option"
  wdg_minimumHeight :: int
  wdg_layout :: "ptr option"

text \<open>
  A layout's margins and spacing are style dependent until the program sets them:
  \<open>None\<close> stands for the style's default.
\<close>

record QHBoxLayout =
  lay_parent :: "qobject_ref option"
  lay_contentsMargins :: "margins option"
  lay_spacing :: "int option"
  lay_items :: "layout_item list"

record QDockWidget =
  dock_titleBarWidget :: "qobject_ref option"

text \<open>
  The about dialog lives on the handler's stack. Its logo is \<open>None\<close> until
  \<^verbatim>\<open>setLogo\<close> is called (the host dialog's own default).
\<close>

record qSlicerAboutDialog =
  dlg_parent :: ptr
  dlg_logo :: "QPixmap option"

record world =
  application :: "qSlicerApplication option"
  attributes :: "ApplicationAttribute set"
  mainWindows :: "ptr \<rightharpoonup> QMainWindow"
  actions :: "ptr \<rightharpoonup> QAction"
  menus :: "ptr \<rightharpoonup> QMenu"
  menuBars :: "ptr \<rightharpoonup> QMenuBar"
  labels :: "ptr \<rightharpoonup> QLabel"
  widgets :: "ptr \<rightharpoonup> QWidget"
  layouts :: "ptr \<rightharpoonup> QHBoxLayout"
  dockWidgets :: "ptr \<rightharpoonup> QDockWidget"
  next_ptr :: ptr
  debug_output :: "debug_token list list"
  resource_requests :: "string list"
  modal_dialogs :: "qSlicerAboutDialog list"

text \<open>
  The private-implementation object. \<^verbatim>\<open>qnykAorticAppMainWindow_p.h\<close> declares a
  constructor, a destructor, \<^verbatim>\<open>init\<close> and \<^verbatim>\<open>setupUi\<close> and no data member, so
  the object's fields are exactly the inherited ones. Of those the sources name
  \<^verbatim>\<open>HelpMenu\<close> and \<^verbatim>\<open>PanelDockWidget\<close> in code and \<^verbatim>\<open>menubar\<close>, \<^verbatim>\<open>FileMenu\<close>,
  \<^verbatim>\<open>EditMenu\<close>, \<^verbatim>\<open>ViewMenu\<close> and \<^verbatim>\<open>LayoutMenu\<close> in the commented-out lines
  108 to 113 of \<^verbatim>\<open>qnykAorticAppMainWindow.cxx\<close>; \<open>other_members\<close> stands for
  whatever else the host class stores.
\<close>

record qSlicerMainWindowPrivate =
  q_ptr :: ptr
  menubar :: ptr
  FileMenu :: ptr
  EditMenu :: ptr
  ViewMenu :: ptr
  LayoutMenu :: ptr
  HelpMenu :: ptr
  PanelDockWidget :: ptr
  other_members :: "qobject_ref list"

type_synonym qnykAorticAppMainWindowPrivate = qSlicerMainWindowPrivate

text \<open>
  The methods of the host's base classes that the layer forwards to. They are
  not part of the repository: every theorem holds for any choice of them.
\<close>

record host =
  Superclass_Private :: "ptr \<Rightarrow> world \<Rightarrow> error + qSlicerMainWindowPrivate \<times> world"
  Superclass_init :: "qSlicerMainWindowPrivate \<times> world \<Rightarrow> error + qSlicerMainWindowPrivate \<times> world"
  Superclass_setupUi :: "ptr \<Rightarrow> qSlicerMainWindowPrivate \<times> world \<Rightarrow> error + qSlicerMainWindowPrivate \<times> world"
  Superclass_MainWindow :: "ptr \<Rightarrow> qSlicerMainWindowPrivate \<Rightarrow> ptr option \<Rightarrow> world \<Rightarrow> error + qSlicerMainWindowPrivate \<times> world"

text \<open>Sequencing of fallible steps: the first error ends the operation.\<close>

definition and_then :: "error + 'a \<Rightarrow> ('a \<Rightarrow> error + 'b) \<Rightarrow> error + 'b" where
  "and_then m f = (case m of Inl e \<Rightarrow> Inl e | Inr x \<Rightarrow> f x)"

section \<open>Toolkit operations used by the layer\<close>

text \<open>
  Each operation below stands for the toolkit call of the same name, with the
  effect the toolkit documents for it. A setter dereferences its receiver.
\<close>

definition update_mainWindow :: "ptr \<Rightarrow> (QMainWindow \<Rightarrow> QMainWindow) \<Rightarrow> world \<Rightarrow> error + world" where
  "update_mainWindow p f w =
     (case mainWindows w p of
        None \<Rightarrow> Inl (InvalidPointer (MainWindowRef p))
      | Some ob \<Rightarrow> Inr (w\<lparr>mainWindows := (mainWindows w)(p \<mapsto> f ob)\<rparr>))"

definition update_action :: "ptr \<Rightarrow> (QAction \<Rightarrow> QAction) \<Rightarrow> world \<Rightarrow> error + world" where
  "update_action p f w =
     (case actions w p of
        None \<Rightarrow> Inl (InvalidPointer (ActionRef p))
      | Some ob \<Rightarrow> Inr (w\<lparr>actions := (actions w)(p \<mapsto> f ob)\<rparr>))"

definition update_menu :: "ptr \<Rightarrow> (QMenu \<Rightarrow> QMenu) \<Rightarrow> world \<Rightarrow> error + world" where
  "update_menu p f w =
     (case menus w p of
        None \<Rightarrow> Inl (InvalidPointer (MenuRef p))
      | Some ob \<Rightarrow> Inr (w\<lparr>menus := (menus w)(p \<mapsto> f ob)\<rparr>))"

definition update_label :: "ptr \<Rightarrow> (QLabel \<Rightarrow> QLabel) \<Rightarrow> world \<Rightarrow> error + world" where
  "update_label p f w =
     (case labels w p of
        None \<Rightarrow> Inl (InvalidPointer (LabelRef p))
      | Some ob \<Rightarrow> Inr (w\<lparr>labels := (labels w)(p \<mapsto> f ob)\<rparr>))"

definition update_widget :: "ptr \<Rightarrow> (QWidget \<Rightarrow> QWidget) \<Rightarrow> world \<Rightarrow> error + world" where
  "update_widget p f w =
     (case widgets w p of
        None \<Rightarrow> Inl (InvalidPointer (WidgetRef p))
      | Some ob \<Rightarrow> Inr (w\<lparr>widgets := (widgets w)(p \<mapsto> f ob)\<rparr>))"

definition update_layout :: "ptr \<Rightarrow> (QHBoxLayout \<Rightarrow> QHBoxLayout) \<Rightarrow> world \<Rightarrow> error + world" where
  "update_layout p f w =
     (case layouts w p of
        None \<Rightarrow> Inl (InvalidPointer (LayoutRef p))
      | Some ob \<Rightarrow> Inr (w\<lparr>layouts := (layouts w)(p \<mapsto> f ob)\<rparr>))"

definition update_dockWidget :: "ptr \<Rightarrow> (QDockWidget \<Rightarrow> QDockWidget) \<Rightarrow> world \<Rightarrow> error + world" where
  "update_dockWidget p f w =
     (case dockWidgets w p of
        None \<Rightarrow> Inl (InvalidPointer (DockWidgetRef p))
      | Some ob \<Rightarrow> Inr (w\<lparr>dockWidgets := (dockWidgets w)(p \<mapsto> f ob)\<rparr>))"

text \<open>\<^verbatim>\<open>new QAction(parent)\<close>: a fresh action with empty name and text, a child of \<open>parent\<close>.\<close>

definition new_QAction :: "qobject_ref \<Rightarrow> world \<Rightarrow> ptr \<times> world" where
  "new_QAction parent w =
     (let p = next_ptr w
      in (p, w\<lparr>actions := (actions w)(p \<mapsto>
                  \<lparr>act_parent = Some parent, act_objectName = [], act_text = []\<rparr>),
               next_ptr := Suc p\<rparr>))"

text \<open>\<^verbatim>\<open>new QLabel()\<close>: a fresh parentless label, hidden, with nothing set.\<close>

definition new_QLabel :: "world \<Rightarrow> ptr \<times> world" where
  "new_QLabel w =
     (let p = next_ptr w
      in (p, w\<lparr>labels := (labels w)(p \<mapsto>
                  \<lparr>lbl_parent = None, lbl_objectName = [], lbl_pixmap = None,
                   lbl_alignment = None, lbl_contentsMargins = (0, 0, 0, 0),
                   lbl_styleSheet = [], lbl_visible = False\<rparr>),
               next_ptr := Suc p\<rparr>))"

text \<open>\<^verbatim>\<open>new QWidget()\<close>: a fresh parentless widget without layout.\<close>

definition new_QWidget :: "world \<Rightarrow> ptr \<times> world" where
  "new_QWidget w =
     (let p = next_ptr w
      in (p, w\<lparr>widgets := (widgets w)(p \<mapsto>
                  \<lparr>wdg_parent = None, wdg_minimumHeight = 0, wdg_layout = None\<rparr>),
               next_ptr := Suc p\<rparr>))"

text \<open>
  \<^verbatim>\<open>new QHBoxLayout(parent)\<close>: a fresh empty layout, installed as the layout of the
  widget \<open>parent\<close>.
\<close>

definition new_QHBoxLayout :: "ptr \<Rightarrow> world \<Rightarrow> error + ptr \<times> world" where
  "new_QHBoxLayout parent w =
     (let p = next_ptr w;
          w1 = w\<lparr>layouts := (layouts w)(p \<mapsto>
                  \<lparr>lay_parent = Some (WidgetRef parent), lay_contentsMargins = None,
                   lay_spacing = None, lay_items = []\<rparr>),
                next_ptr := Suc p\<rparr>
      in and_then (update_widget parent (\<lambda>ob. ob\<lparr>wdg_layout := Some p\<rparr>) w1) (\<lambda>w2. Inr (p, w2)))"

text \<open>
  \<^verbatim>\<open>QIcon(fileName)\<close> and \<^verbatim>\<open>QPixmap(fileName)\<close> ask the resource system for a file by
  name. The compiled-in resource collection is the parameter \<open>rc\<close>: a name that is
  not in the collection gives the null pixmap. Every request is recorded.
\<close>

definition QIcon_fromFile :: "string \<Rightarrow> world \<Rightarrow> QIcon \<times> world" where
  "QIcon_fromFile fileName w =
     (IconFile fileName, w\<lparr>resource_requests := resource_requests w @ [fileName]\<rparr>)"

definition QPixmap_fromFile :: "(string \<Rightarrow> QPixmap) \<Rightarrow> string \<Rightarrow> world \<Rightarrow> QPixmap \<times> world" where
  "QPixmap_fromFile rc fileName w =
     (rc fileName, w\<lparr>resource_requests := resource_requests w @ [fileName]\<rparr>)"

definition qDebug :: "debug_token list \<Rightarrow> world \<Rightarrow> world" where
  "qDebug msg w = w\<lparr>debug_output := debug_output w @ [msg]\<rparr>"

definition applicationName_of :: "qSlicerApplication option \<Rightarrow> error + string" where
  "applicationName_of app = (case app of None \<Rightarrow> Inl NoApplication | Some a \<Rightarrow> Inr (applicationName a))"

definition QAction_setObjectName :: "ptr \<Rightarrow> string \<Rightarrow> world \<Rightarrow> error + world" where
  "QAction_setObjectName p name = update_action p (\<lambda>ob. ob\<lparr>act_objectName := name\<rparr>)"

definition QAction_setText :: "ptr \<Rightarrow> string \<Rightarrow> world \<Rightarrow> error + world" where
  "QAction_setText p t = update_action p (\<lambda>ob. ob\<lparr>act_text := t\<rparr>)"

text \<open>
  \<^verbatim>\<open>QWidget::addAction\<close> appends the action to the widget's list of actions; an
  action that is already in the list is moved to the end.
\<close>

definition QMenu_addAction :: "ptr \<Rightarrow> ptr \<Rightarrow> world \<Rightarrow> error + world" where
  "QMenu_addAction p a =
     update_menu p (\<lambda>ob. ob\<lparr>menu_actions := removeAll a (menu_actions ob) @ [a]\<rparr>)"

definition QMainWindow_setWindowIcon :: "ptr \<Rightarrow> QIcon \<Rightarrow> world \<Rightarrow> error + world" where
  "QMainWindow_setWindowIcon p icon = update_mainWindow p (\<lambda>ob. ob\<lparr>mw_windowIcon := icon\<rparr>)"

definition QLabel_setObjectName :: "ptr \<Rightarrow> string \<Rightarrow> world \<Rightarrow> error + world" where
  "QLabel_setObjectName p name = update_label p (\<lambda>ob. ob\<lparr>lbl_objectName := name\<rparr>)"

definition QLabel_setPixmap :: "ptr \<Rightarrow> QPixmap \<Rightarrow> world \<Rightarrow> error + world" where
  "QLabel_setPixmap p pm = update_label p (\<lambda>ob. ob\<lparr>lbl_pixmap := Some pm\<rparr>)"

definition QLabel_setAlignment :: "ptr \<Rightarrow> AlignmentFlag set \<Rightarrow> world \<Rightarrow> error + world" where
  "QLabel_setAlignment p al = update_label p (\<lambda>ob. ob\<lparr>lbl_alignment := Some al\<rparr>)"

definition QLabel_setContentsMargins :: "ptr \<Rightarrow> margins \<Rightarrow> world \<Rightarrow> error + world" where
  "QLabel_setContentsMargins p m = update_label p (\<lambda>ob. ob\<lparr>lbl_contentsMargins := m\<rparr>)"

definition QLabel_setStyleSheet :: "ptr \<Rightarrow> string \<Rightarrow> world \<Rightarrow> error + world" where
  "QLabel_setStyleSheet p s = update_label p (\<lambda>ob. ob\<lparr>lbl_styleSheet := s\<rparr>)"

definition QLabel_setVisible :: "ptr \<Rightarrow> bool \<Rightarrow> world \<Rightarrow> error + world" where
  "QLabel_setVisible p v = update_label p (\<lambda>ob. ob\<lparr>lbl_visible := v\<rparr>)"

definition QWidget_setMinimumHeight :: "ptr \<Rightarrow> int \<Rightarrow> world \<Rightarrow> error + world" where
  "QWidget_setMinimumHeight p h = update_widget p (\<lambda>ob. ob\<lparr>wdg_minimumHeight := h\<rparr>)"

definition QHBoxLayout_setContentsMargins :: "ptr \<Rightarrow> margins \<Rightarrow> world \<Rightarrow> error + world" where
  "QHBoxLayout_setContentsMargins p m = update_layout p (\<lambda>ob. ob\<lparr>lay_contentsMargins := Some m\<rparr>)"

definition QHBoxLayout_setSpacing :: "ptr \<Rightarrow> int \<Rightarrow> world \<Rightarrow> error + world" where
  "QHBoxLayout_setSpacing p s = update_layout p (\<lambda>ob. ob\<lparr>lay_spacing := Some s\<rparr>)"

text \<open>
  \<^verbatim>\<open>QBoxLayout::addWidget\<close> appends the widget to the layout; the widget becomes a
  child of the widget the layout is installed on.
\<close>

definition QHBoxLayout_addWidget :: "ptr \<Rightarrow> ptr \<Rightarrow> world \<Rightarrow> error + world" where
  "QHBoxLayout_addWidget p l w =
     (case layouts w p of
        None \<Rightarrow> Inl (InvalidPointer (LayoutRef p))
      | Some lay \<Rightarrow>
          and_then (update_label l (\<lambda>ob. ob\<lparr>lbl_parent := lay_parent lay\<rparr>) w)
            (update_layout p (\<lambda>ob. ob\<lparr>lay_items := lay_items ob @ [WidgetItem (LabelRef l)]\<rparr>)))"

definition QHBoxLayout_addStretch :: "ptr \<Rightarrow> nat \<Rightarrow> world \<Rightarrow> error + world" where
  "QHBoxLayout_addStretch p n = update_layout p (\<lambda>ob. ob\<lparr>lay_items := lay_items ob @ [StretchItem n]\<rparr>)"

text \<open>
  \<^verbatim>\<open>QDockWidget::setTitleBarWidget\<close> makes the widget the dock widget's title bar and
  its child.
\<close>

definition QDockWidget_setTitleBarWidget :: "ptr \<Rightarrow> ptr \<Rightarrow> world \<Rightarrow> error + world" where
  "QDockWidget_setTitleBarWidget p t w =
     and_then (update_dockWidget p (\<lambda>ob. ob\<lparr>dock_titleBarWidget := Some (WidgetRef t)\<rparr>) w)
       (update_widget t (\<lambda>ob. ob\<lparr>wdg_parent := Some (DockWidgetRef p)\<rparr>))"

section \<open>Initialization hook\<close>

text \<open>
  Qt's version macro: \<^verbatim>\<open>QT_VERSION_CHECK(major, minor, patch)\<close> is
  \<^verbatim>\<open>((major<<16)|(minor<<8)|(patch))\<close>. \<^verbatim>\<open>QT_VERSION\<close> itself is fixed when the
  layer is compiled; it is a parameter of \<open>init\<close>.
\<close>

definition QT_VERSION_CHECK :: "nat \<Rightarrow> nat \<Rightarrow> nat \<Rightarrow> nat" where
  "QT_VERSION_CHECK major minor patch = push_bit 16 major OR push_bit 8 minor OR patch"

definition QApplication_setAttribute :: "ApplicationAttribute \<Rightarrow> world \<Rightarrow> world" where
  "QApplication_setAttribute a w = w\<lparr>attributes := insert a (attributes w)\<rparr>"

text \<open>
  \<^verbatim>\<open>qnykAorticAppMainWindowPrivate::init\<close> (lines 47 to 54). \<^verbatim>\<open>Q_Q\<close> only declares
  the local pointer \<^verbatim>\<open>q\<close>.
\<close>

definition init :: "host \<Rightarrow> nat \<Rightarrow> qnykAorticAppMainWindowPrivate \<times> world
    \<Rightarrow> error + qnykAorticAppMainWindowPrivate \<times> world" where
  "init S QT_VERSION dw =
     (case dw of (d, w) \<Rightarrow>
        let w1 = (if QT_VERSION \<ge> QT_VERSION_CHECK 5 7 0
                  then QApplication_setAttribute AA_UseHighDpiPixmaps w else w)
        in Superclass_init S (d, w1))"

section \<open>UI-setup hook\<close>

text \<open>
  \<^verbatim>\<open>qnykAorticAppMainWindowPrivate::setupUi\<close>, lines 59 to 66: the application
  pointer is fetched, the action is created as a child of the main window, named,
  and given its text. \<^verbatim>\<open>app\<close> is dereferenced at line 66 only.
\<close>

definition setupUi_addActions :: "ptr \<Rightarrow> world \<Rightarrow> error + ptr \<times> world" where
  "setupUi_addActions mainWindow w =
     (let app = application w;
          (helpAboutSlicerAppAction, w) = new_QAction (MainWindowRef mainWindow) w
      in and_then (QAction_setObjectName helpAboutSlicerAppAction ''HelpAboutnykAorticAppAction'' w) (\<lambda>w.
         and_then (applicationName_of app) (\<lambda>name.
         and_then (QAction_setText helpAboutSlicerAppAction (''About '' @ name) w) (\<lambda>w.
         Inr (helpAboutSlicerAppAction, w)))))"

text \<open>
  Lines 80 to 105: window icon, logo label, custom title bar. The commented-out
  lines 108 to 113 are no code.
\<close>

definition setupUi_configure :: "(string \<Rightarrow> QPixmap) \<Rightarrow> ptr \<Rightarrow> qnykAorticAppMainWindowPrivate
    \<Rightarrow> world \<Rightarrow> error + world" where
  "setupUi_configure rc mainWindow d w =
     (let (icon, w) = QIcon_fromFile '':/Icons/Medium/DesktopIcon.png'' w
      in and_then (QMainWindow_setWindowIcon mainWindow icon w) (\<lambda>w.
         let (logoLabel, w) = new_QLabel w
         in and_then (QLabel_setObjectName logoLabel ''LogoLabel'' w) (\<lambda>w.
         let (logoPixmap, w) = QPixmap_fromFile rc '':/LogoFull.png'' w;
             w = qDebug [DText ''Logo pixmap is'',
                         DText (if isNull logoPixmap then ''NULL'' else ''valid''),
                         DText ''with size'', DSize (size_of logoPixmap)] w
         in and_then (QLabel_setPixmap logoLabel logoPixmap w) (\<lambda>w.
         and_then (QLabel_setAlignment logoLabel {AlignLeft, AlignVCenter} w) (\<lambda>w.
         and_then (QLabel_setContentsMargins logoLabel (5, 0, 0, 0) w) (\<lambda>w.
         and_then (QLabel_setStyleSheet logoLabel
            ''QLabel#LogoLabel { background-color: transparent; padding: 2px; margin-right: 10px; }'' w) (\<lambda>w.
         and_then (QLabel_setVisible logoLabel True w) (\<lambda>w.
         let (customTitleBar, w) = new_QWidget w
         in and_then (QWidget_setMinimumHeight customTitleBar 25 w) (\<lambda>w.
         and_then (new_QHBoxLayout customTitleBar w) (\<lambda>(titleLayout, w).
         and_then (QHBoxLayout_setContentsMargins titleLayout (0, 0, 0, 0) w) (\<lambda>w.
         and_then (QHBoxLayout_setSpacing titleLayout 10 w) (\<lambda>w.
         and_then (QHBoxLayout_addWidget titleLayout logoLabel w) (\<lambda>w.
         and_then (QHBoxLayout_addStretch titleLayout 1 w) (\<lambda>w.
         QDockWidget_setTitleBarWidget (PanelDockWidget d) customTitleBar w))))))))))))))"

text \<open>
  The whole hook: the action is prepared, the base class's \<^verbatim>\<open>setupUi\<close> runs (line
  72), the action is appended to the inherited Help menu (line 75), then the
  window is configured.
\<close>

definition setupUi :: "host \<Rightarrow> (string \<Rightarrow> QPixmap) \<Rightarrow> ptr \<Rightarrow> qnykAorticAppMainWindowPrivate \<times> world
    \<Rightarrow> error + qnykAorticAppMainWindowPrivate \<times> world" where
  "setupUi S rc mainWindow dw =
     (case dw of (d, w) \<Rightarrow>
        and_then (setupUi_addActions mainWindow w) (\<lambda>(helpAboutSlicerAppAction, w).
        and_then (Superclass_setupUi S mainWindow (d, w)) (\<lambda>(d, w).
        and_then (QMenu_addAction (HelpMenu d) helpAboutSlicerAppAction w) (\<lambda>w.
        and_then (setupUi_configure rc mainWindow d w) (\<lambda>w.
        Inr (d, w))))))"

section \<open>Constructors and the About handler\<close>

text \<open>\<^verbatim>\<open>qnykAorticAppMainWindowPrivate(object)\<close>, lines 36 to 39: the base constructor only.\<close>

definition qnykAorticAppMainWindowPrivate :: "host \<Rightarrow> ptr \<Rightarrow> world
    \<Rightarrow> error + qnykAorticAppMainWindowPrivate \<times> world" where
  "qnykAorticAppMainWindowPrivate S object w = Superclass_Private S object w"

text \<open>
  The public constructor \<^verbatim>\<open>qnykAorticAppMainWindow(QWidget*)\<close>, lines 120 to 125:
  a new private object, the base constructor, then \<^verbatim>\<open>d->init()\<close>.
\<close>

definition qnykAorticAppMainWindow :: "host \<Rightarrow> nat \<Rightarrow> ptr \<Rightarrow> ptr option \<Rightarrow> world
    \<Rightarrow> error + qnykAorticAppMainWindowPrivate \<times> world" where
  "qnykAorticAppMainWindow S QT_VERSION this windowParent w =
     and_then (qnykAorticAppMainWindowPrivate S this w) (\<lambda>(pimpl, w).
     and_then (Superclass_MainWindow S this pimpl windowParent w) (\<lambda>(d, w).
     init S QT_VERSION (d, w)))"

text \<open>
  The protected constructor \<^verbatim>\<open>qnykAorticAppMainWindow(pimpl, parent)\<close>, lines 128 to
  133: the base constructor and nothing else.
\<close>

definition qnykAorticAppMainWindow_pimpl :: "host \<Rightarrow> ptr \<Rightarrow> qnykAorticAppMainWindowPrivate
    \<Rightarrow> ptr option \<Rightarrow> world \<Rightarrow> error + qnykAorticAppMainWindowPrivate \<times> world" where
  "qnykAorticAppMainWindow_pimpl S this pimpl windowParent w =
     Superclass_MainWindow S this pimpl windowParent w"

definition qSlicerAboutDialog_ctor :: "ptr \<Rightarrow> qSlicerAboutDialog" where
  "qSlicerAboutDialog_ctor parent = \<lparr>dlg_parent = parent, dlg_logo = None\<rparr>"

definition setLogo :: "QPixmap \<Rightarrow> qSlicerAboutDialog \<Rightarrow> qSlicerAboutDialog" where
  "setLogo pm dlg = dlg\<lparr>dlg_logo := Some pm\<rparr>"

text \<open>
  \<^verbatim>\<open>QDialog::exec\<close> shows the dialog modally; the model records the dialog as
  shown. The handler drops the result code.
\<close>

definition exec :: "qSlicerAboutDialog \<Rightarrow> world \<Rightarrow> world" where
  "exec dlg w = w\<lparr>modal_dialogs := modal_dialogs w @ [dlg]\<rparr>"

text \<open>\<^verbatim>\<open>qnykAorticAppMainWindow::on_HelpAboutnykAorticAppAction_triggered\<close>, lines 141 to 146.\<close>

definition on_HelpAboutnykAorticAppAction_triggered :: "(string \<Rightarrow> QPixmap) \<Rightarrow> ptr \<Rightarrow> world \<Rightarrow> world" where
  "on_HelpAboutnykAorticAppAction_triggered rc this w =
     (let about = qSlicerAboutDialog_ctor this;
          (logo, w) = QPixmap_fromFile rc '':/Logo.png'' w;
          about = setLogo logo about
      in exec about w)"

section \<open>References held by the private object\<close>

text \<open>The pointers stored in the fields of the private object.\<close>

definition pimpl_refs :: "qnykAorticAppMainWindowPrivate \<Rightarrow> qobject_ref list" where
  "pimpl_refs d =
     [MainWindowRef (q_ptr d), MenuBarRef (menubar d), MenuRef (FileMenu d), MenuRef (EditMenu d),
      MenuRef (ViewMenu d), MenuRef (LayoutMenu d), MenuRef (HelpMenu d),
      DockWidgetRef (PanelDockWidget d)] @ other_members d"

section \<open>A concrete host and session\<close>

text \<open>
  A small host to run the layer on: an application named nykAortic, a base
  \<^verbatim>\<open>setupUi\<close> that creates a visible menu bar, five visible menus and the panel
  dock widget, and a resource collection holding the two logos.
\<close>

definition example_world :: world where
  "example_world =
     \<lparr>application = Some \<lparr>applicationName = ''nykAortic''\<rparr>, attributes = {},
      mainWindows = Map.empty, actions = Map.empty, menus = Map.empty, menuBars = Map.empty,
      labels = Map.empty, widgets = Map.empty, layouts = Map.empty, dockWidgets = Map.empty,
      next_ptr = 2, debug_output = [], resource_requests = [], modal_dialogs = []\<rparr>"

definition example_pimpl :: qnykAorticAppMainWindowPrivate where
  "example_pimpl =
     \<lparr>q_ptr = 1, menubar = 0, FileMenu = 0, EditMenu = 0, ViewMenu = 0, LayoutMenu = 0,
      HelpMenu = 0, PanelDockWidget = 0, other_members = []\<rparr>"

definition example_rc :: "string \<Rightarrow> QPixmap" where
  "example_rc fileName =
     (if fileName = '':/LogoFull.png'' then Pixmap 320 64
      else if fileName = '':/Logo.png'' then Pixmap 128 128
      else NullPixmap)"

definition missing_rc :: "string \<Rightarrow> QPixmap" where
  "missing_rc fileName = NullPixmap"

definition example_menu :: QMenu where
  "example_menu = \<lparr>menu_actions = [], menu_visible = True\<rparr>"

definition example_base :: host where
  "example_base =
     \<lparr>Superclass_Private = (\<lambda>object w. Inr (example_pimpl\<lparr>q_ptr := object\<rparr>, w)),
      Superclass_init = Inr,
      Superclass_setupUi = (\<lambda>mainWindow (d, w).
        Inr (d\<lparr>menubar := 10, FileMenu := 11, EditMenu := 12, ViewMenu := 13, LayoutMenu := 14,
               HelpMenu := 15, PanelDockWidget := 16\<rparr>,
             w\<lparr>menuBars := (menuBars w)(10 \<mapsto> \<lparr>bar_visible = True\<rparr>),
               menus := (menus w)(11 \<mapsto> example_menu, 12 \<mapsto> example_menu, 13 \<mapsto> example_menu,
                                  14 \<mapsto> example_menu, 15 \<mapsto> example_menu),
               dockWidgets := (dockWidgets w)(16 \<mapsto> \<lparr>dock_titleBarWidget = None\<rparr>),
               next_ptr := 17\<rparr>)),
      Superclass_MainWindow = (\<lambda>this pimpl windowParent w.
        Inr (pimpl, w\<lparr>mainWindows := (mainWindows w)(this \<mapsto> \<lparr>mw_windowIcon = NullIcon\<rparr>)\<rparr>))\<rparr>"

text \<open>The world once the base constructor has built the main window at address 1.\<close>

definition example_window :: world where
  "example_window = example_world\<lparr>mainWindows := [1 \<mapsto> \<lparr>mw_windowIcon = NullIcon\<rparr>]\<rparr>"

definition example_run :: "(string \<Rightarrow> QPixmap) \<Rightarrow> error + qnykAorticAppMainWindowPrivate \<times> world" where
  "example_run rc = setupUi example_base rc 1 (example_pimpl, example_window)"

text \<open>The host's \<^verbatim>\<open>init\<close> calls the virtual \<^verbatim>\<open>setupUi\<close> on the window \<^verbatim>\<open>q\<close>.\<close>

definition example_host :: host where
  "example_host =
     example_base\<lparr>Superclass_init := (\<lambda>(d, w). setupUi example_base example_rc (q_ptr d) (d, w))\<rparr>"

text \<open>A window is constructed at address 1 under Qt 5.15.2, then About is triggered once.\<close>

definition example_session :: "error + qnykAorticAppMainWindowPrivate \<times> world" where
  "example_session =
     and_then (qnykAorticAppMainWindow example_host (QT_VERSION_CHECK 5 15 2) 1 None example_world)
       (\<lambda>(d, w). Inr (d, on_HelpAboutnykAorticAppAction_triggered example_rc 1 w))"

section \<open>Closed forms\<close>

lemma and_then_Inr [simp]: "and_then (Inr x) f = f x"
  by (simp add: and_then_def)

lemma and_then_Inl [simp]: "and_then (Inl e) f = Inl e"
  by (simp add: and_then_def)

lemmas toolkit_defs =
  update_mainWindow_def update_action_def update_menu_def update_label_def update_widget_def
  update_layout_def update_dockWidget_def new_QAction_def new_QLabel_def new_QWidget_def
  new_QHBoxLayout_def QIcon_fromFile_def QPixmap_fromFile_def qDebug_def applicationName_of_def
  QAction_setObjectName_def QAction_setText_def QMenu_addAction_def QMainWindow_setWindowIcon_def
  QLabel_setObjectName_def QLabel_setPixmap_def QLabel_setAlignment_def QLabel_setContentsMargins_def
  QLabel_setStyleSheet_def QLabel_setVisible_def QWidget_setMinimumHeight_def
  QHBoxLayout_setContentsMargins_def QHBoxLayout_setSpacing_def QHBoxLayout_addWidget_def
  QHBoxLayout_addStretch_def QDockWidget_setTitleBarWidget_def

text \<open>The first phase fails only without an application instance.\<close>

lemma setupUi_addActions_eq:
  "setupUi_addActions mainWindow w =
     (case application w of
        None \<Rightarrow> Inl NoApplication
      | Some app \<Rightarrow>
          Inr (next_ptr w,
               w\<lparr>actions := (actions w)(next_ptr w \<mapsto>
                    \<lparr>act_parent = Some (MainWindowRef mainWindow),
                     act_objectName = ''HelpAboutnykAorticAppAction'',
                     act_text = ''About '' @ applicationName app\<rparr>),
                  next_ptr := Suc (next_ptr w)\<rparr>))"
  by (simp add: setupUi_addActions_def toolkit_defs Let_def split: option.splits)

text \<open>
  The configuration phase fails only on an invalid main window or panel dock
  widget; otherwise it changes the window icon and the dock widget's title bar
  and allocates the label, the title bar and its layout.
\<close>

lemma setupUi_configure_eq:
  "setupUi_configure rc mainWindow d w =
     (case mainWindows w mainWindow of
        None \<Rightarrow> Inl (InvalidPointer (MainWindowRef mainWindow))
      | Some mw \<Rightarrow>
         (case dockWidgets w (PanelDockWidget d) of
            None \<Rightarrow> Inl (InvalidPointer (DockWidgetRef (PanelDockWidget d)))
          | Some dock \<Rightarrow>
              Inr (w\<lparr>mainWindows := (mainWindows w)(mainWindow \<mapsto>
                        mw\<lparr>mw_windowIcon := IconFile '':/Icons/Medium/DesktopIcon.png''\<rparr>),
                     labels := (labels w)(next_ptr w \<mapsto>
                        \<lparr>lbl_parent = Some (WidgetRef (Suc (next_ptr w))), lbl_objectName = ''LogoLabel'',
                         lbl_pixmap = Some (rc '':/LogoFull.png''),
                         lbl_alignment = Some {AlignLeft, AlignVCenter}, lbl_contentsMargins = (5, 0, 0, 0),
                         lbl_styleSheet = ''QLabel#LogoLabel { background-color: transparent; padding: 2px; margin-right: 10px; }'',
                         lbl_visible = True\<rparr>),
                     widgets := (widgets w)(Suc (next_ptr w) \<mapsto>
                        \<lparr>wdg_parent = Some (DockWidgetRef (PanelDockWidget d)), wdg_minimumHeight = 25,
                         wdg_layout = Some (Suc (Suc (next_ptr w)))\<rparr>),
                     layouts := (layouts w)(Suc (Suc (next_ptr w)) \<mapsto>
                        \<lparr>lay_parent = Some (WidgetRef (Suc (next_ptr w))), lay_contentsMargins = Some (0, 0, 0, 0),
                         lay_spacing = Some 10,
                         lay_items = [WidgetItem (LabelRef (next_ptr w)), StretchItem 1]\<rparr>),
                     dockWidgets := (dockWidgets w)(PanelDockWidget d \<mapsto>
                        dock\<lparr>dock_titleBarWidget := Some (WidgetRef (Suc (next_ptr w)))\<rparr>),
                     next_ptr := Suc (Suc (Suc (next_ptr w))),
                     debug_output := debug_output w @
                        [[DText ''Logo pixmap is'',
                          DText (if isNull (rc '':/LogoFull.png'') then ''NULL'' else ''valid''),
                          DText ''with size'', DSize (size_of (rc '':/LogoFull.png''))]],
                     resource_requests := resource_requests w @
                        ['':/Icons/Medium/DesktopIcon.png'', '':/LogoFull.png'']\<rparr>)))"
  by (simp add: setupUi_configure_def toolkit_defs Let_def split: option.splits)

lemma QMenu_addAction_eq:
  "QMenu_addAction p a w =
     (case menus w p of
        None \<Rightarrow> Inl (InvalidPointer (MenuRef p))
      | Some hm \<Rightarrow>
          Inr (w\<lparr>menus := (menus w)(p \<mapsto> hm\<lparr>menu_actions := removeAll a (menu_actions hm) @ [a]\<rparr>)\<rparr>))"
  by (simp add: QMenu_addAction_def update_menu_def)

lemma on_HelpAboutnykAorticAppAction_triggered_eq:
  "on_HelpAboutnykAorticAppAction_triggered rc this w =
     w\<lparr>resource_requests := resource_requests w @ ['':/Logo.png''],
       modal_dialogs := modal_dialogs w @
         [\<lparr>dlg_parent = this, dlg_logo = Some (rc '':/Logo.png'')\<rparr>]\<rparr>"
  by (simp add: on_HelpAboutnykAorticAppAction_triggered_def qSlicerAboutDialog_ctor_def
      setLogo_def exec_def QPixmap_fromFile_def)

text \<open>The hook as a chain of its four fallible phases.\<close>

lemma setupUi_eq:
  "setupUi S rc mainWindow (d, w) =
     (case setupUi_addActions mainWindow w of
        Inl e \<Rightarrow> Inl e
      | Inr (a, w1) \<Rightarrow>
         (case Superclass_setupUi S mainWindow (d, w1) of
            Inl e \<Rightarrow> Inl e
          | Inr (d2, w2) \<Rightarrow>
             (case QMenu_addAction (HelpMenu d2) a w2 of
                Inl e \<Rightarrow> Inl e
              | Inr w3 \<Rightarrow>
                 (case setupUi_configure rc mainWindow d2 w3 of
                    Inl e \<Rightarrow> Inl e
                  | Inr w4 \<Rightarrow> Inr (d2, w4)))))"
  by (simp add: setupUi_def and_then_def split: sum.splits prod.splits)

text \<open>What a completed run of the hook did, phase by phase.\<close>

lemma setupUi_InrD:
  assumes "setupUi S rc mainWindow (d, w) = Inr (d', w')"
  shows "\<exists>app w1 w2 hm mw dock.
     application w = Some app \<and>
     w1 = w\<lparr>actions := (actions w)(next_ptr w \<mapsto>
                    \<lparr>act_parent = Some (MainWindowRef mainWindow),
                     act_objectName = ''HelpAboutnykAorticAppAction'',
                     act_text = ''About '' @ applicationName app\<rparr>),
                  next_ptr := Suc (next_ptr w)\<rparr> \<and>
     setupUi_addActions mainWindow w = Inr (next_ptr w, w1) \<and>
     Superclass_setupUi S mainWindow (d, w1) = Inr (d', w2) \<and>
     menus w2 (HelpMenu d') = Some hm \<and>
     mainWindows w2 mainWindow = Some mw \<and>
     dockWidgets w2 (PanelDockWidget d') = Some dock \<and>
     w' = w2\<lparr>menus := (menus w2)(HelpMenu d' \<mapsto>
                        hm\<lparr>menu_actions := removeAll (next_ptr w) (menu_actions hm) @ [next_ptr w]\<rparr>),
             mainWindows := (mainWindows w2)(mainWindow \<mapsto>
                        mw\<lparr>mw_windowIcon := IconFile '':/Icons/Medium/DesktopIcon.png''\<rparr>),
             labels := (labels w2)(next_ptr w2 \<mapsto>
                        \<lparr>lbl_parent = Some (WidgetRef (Suc (next_ptr w2))), lbl_objectName = ''LogoLabel'',
                         lbl_pixmap = Some (rc '':/LogoFull.png''),
                         lbl_alignment = Some {AlignLeft, AlignVCenter}, lbl_contentsMargins = (5, 0, 0, 0),
                         lbl_styleSheet = ''QLabel#LogoLabel { background-color: transparent; padding: 2px; margin-right: 10px; }'',
                         lbl_visible = True\<rparr>),
             widgets := (widgets w2)(Suc (next_ptr w2) \<mapsto>
                        \<lparr>wdg_parent = Some (DockWidgetRef (PanelDockWidget d')), wdg_minimumHeight = 25,
                         wdg_layout = Some (Suc (Suc (next_ptr w2)))\<rparr>),
             layouts := (layouts w2)(Suc (Suc (next_ptr w2)) \<mapsto>
                        \<lparr>lay_parent = Some (WidgetRef (Suc (next_ptr w2))), lay_contentsMargins = Some (0, 0, 0, 0),
                         lay_spacing = Some 10,
                         lay_items = [WidgetItem (LabelRef (next_ptr w2)), StretchItem 1]\<rparr>),
             dockWidgets := (dockWidgets w2)(PanelDockWidget d' \<mapsto>
                        dock\<lparr>dock_titleBarWidget := Some (WidgetRef (Suc (next_ptr w2)))\<rparr>),
             next_ptr := Suc (Suc (Suc (next_ptr w2))),
             debug_output := debug_output w2 @
                        [[DText ''Logo pixmap is'',
                          DText (if isNull (rc '':/LogoFull.png'') then ''NULL'' else ''valid''),
                          DText ''with size'', DSize (size_of (rc '':/LogoFull.png''))]],
             resource_requests := resource_requests w2 @
                        ['':/Icons/Medium/DesktopIcon.png'', '':/LogoFull.png'']\<rparr>"
proof -
  from assms obtain a w1 w2 w3 where
    1: "setupUi_addActions mainWindow w = Inr (a, w1)" and
    2: "Superclass_setupUi S mainWindow (d, w1) = Inr (d', w2)" and
    3: "QMenu_addAction (HelpMenu d') a w2 = Inr w3" and
    4: "setupUi_configure rc mainWindow d' w3 = Inr w'"
    unfolding setupUi_eq by (auto split: sum.splits prod.splits)
  from 1 obtain app where app: "application w = Some app" and a: "a = next_ptr w" and
    w1: "w1 = w\<lparr>actions := (actions w)(next_ptr w \<mapsto>
                    \<lparr>act_parent = Some (MainWindowRef mainWindow),
                     act_objectName = ''HelpAboutnykAorticAppAction'',
                     act_text = ''About '' @ applicationName app\<rparr>),
                  next_ptr := Suc (next_ptr w)\<rparr>"
    unfolding setupUi_addActions_eq by (auto split: option.splits)
  from 3 obtain hm where hm: "menus w2 (HelpMenu d') = Some hm" and
    w3: "w3 = w2\<lparr>menus := (menus w2)(HelpMenu d' \<mapsto>
            hm\<lparr>menu_actions := removeAll a (menu_actions hm) @ [a]\<rparr>)\<rparr>"
    unfolding QMenu_addAction_eq by (auto split: option.splits)
  from 4 obtain mw dock where mw: "mainWindows w3 mainWindow = Some mw" and
    dock: "dockWidgets w3 (PanelDockWidget d') = Some dock"
    unfolding setupUi_configure_eq by (auto split: option.splits)
  from 4 mw dock w3 have w': "w' = w2\<lparr>menus := (menus w2)(HelpMenu d' \<mapsto>
                        hm\<lparr>menu_actions := removeAll a (menu_actions hm) @ [a]\<rparr>),
             mainWindows := (mainWindows w2)(mainWindow \<mapsto>
                        mw\<lparr>mw_windowIcon := IconFile '':/Icons/Medium/DesktopIcon.png''\<rparr>),
             labels := (labels w2)(next_ptr w2 \<mapsto>
                        \<lparr>lbl_parent = Some (WidgetRef (Suc (next_ptr w2))), lbl_objectName = ''LogoLabel'',
                         lbl_pixmap = Some (rc '':/LogoFull.png''),
                         lbl_alignment = Some {AlignLeft, AlignVCenter}, lbl_contentsMargins = (5, 0, 0, 0),
                         lbl_styleSheet = ''QLabel#LogoLabel { background-color: transparent; padding: 2px; margin-right: 10px; }'',
                         lbl_visible = True\<rparr>),
             widgets := (widgets w2)(Suc (next_ptr w2) \<mapsto>
                        \<lparr>wdg_parent = Some (DockWidgetRef (PanelDockWidget d')), wdg_minimumHeight = 25,
                         wdg_layout = Some (Suc (Suc (next_ptr w2)))\<rparr>),
             layouts := (layouts w2)(Suc (Suc (next_ptr w2)) \<mapsto>
                        \<lparr>lay_parent = Some (WidgetRef (Suc (next_ptr w2))), lay_contentsMargins = Some (0, 0, 0, 0),
                         lay_spacing = Some 10,
                         lay_items = [WidgetItem (LabelRef (next_ptr w2)), StretchItem 1]\<rparr>),
             dockWidgets := (dockWidgets w2)(PanelDockWidget d' \<mapsto>
                        dock\<lparr>dock_titleBarWidget := Some (WidgetRef (Suc (next_ptr w2)))\<rparr>),
             next_ptr := Suc (Suc (Suc (next_ptr w2))),
             debug_output := debug_output w2 @
                        [[DText ''Logo pixmap is'',
                          DText (if isNull (rc '':/LogoFull.png'') then ''NULL'' else ''valid''),
                          DText ''with size'', DSize (size_of (rc '':/LogoFull.png''))]],
             resource_requests := resource_requests w2 @
                        ['':/Icons/Medium/DesktopIcon.png'', '':/LogoFull.png'']\<rparr>"
    unfolding setupUi_configure_eq by (simp split del: if_split)
  show ?thesis
    using app 1 2 hm mw dock w' unfolding a w1 w3 by simp
qed

text \<open>The example host lets the hook complete, whatever the resource collection holds.\<close>

lemmas example_eval =
  setupUi_eq setupUi_addActions_eq QMenu_addAction_eq setupUi_configure_eq
  example_window_def example_world_def example_pimpl_def example_base_def example_menu_def
  example_rc_def missing_rc_def

lemma example_completes:
  "\<exists>d' w'. setupUi example_base rc 1 (example_pimpl, example_window) = Inr (d', w')"
  by (simp add: example_eval)

text \<open>Whether the hook fails, and how, does not depend on the resource collection.\<close>

lemma setupUi_error_independent:
  "setupUi S rc mainWindow (d, w) = Inl e \<longleftrightarrow> setupUi S rc' mainWindow (d, w) = Inl e"
  by (simp add: setupUi_eq setupUi_configure_eq split: sum.splits prod.splits option.splits)

text \<open>
  With minor and patch numbers below 256 the version macro is positional, so the
  test of \<open>init\<close> holds exactly from Qt 5.7 on.
\<close>

lemma no_high_bit:
  fixes a :: nat
  assumes "a < 2 ^ k" "k \<le> n"
  shows "\<not> bit a n"
proof -
  from assms have "a < 2 ^ n"
    by (meson le_trans less_le_trans not_le power_increasing one_le_numeral)
  then show ?thesis
    by (simp add: bit_iff_odd)
qed

lemma QT_VERSION_CHECK_arith:
  assumes "minor < 256" "patch < 256"
  shows "QT_VERSION_CHECK major minor patch = major * 65536 + minor * 256 + patch"
proof -
  from assms have m: "minor < 2 ^ 8" and p: "patch < 2 ^ 8"
    by simp_all
  have 1: "push_bit 8 minor + patch = push_bit 8 minor OR patch"
  proof (rule disjunctive_add)
    fix n
    show "\<not> bit (push_bit 8 minor) n \<or> \<not> bit patch n"
      using no_high_bit [OF p, of n] by (auto simp: bit_push_bit_iff)
  qed
  have 2: "push_bit 16 major + (push_bit 8 minor OR patch) =
      push_bit 16 major OR (push_bit 8 minor OR patch)"
  proof (rule disjunctive_add)
    fix n
    show "\<not> bit (push_bit 16 major) n \<or> \<not> bit (push_bit 8 minor OR patch) n"
      using no_high_bit [OF m, of "n - 8"] no_high_bit [OF p, of n]
      by (auto simp: bit_push_bit_iff bit_or_iff)
  qed
  have "QT_VERSION_CHECK major minor patch = push_bit 16 major OR (push_bit 8 minor OR patch)"
    by (simp add: QT_VERSION_CHECK_def)
  also have "\<dots> = push_bit 16 major + (push_bit 8 minor OR patch)"
    by (rule 2 [symmetric])
  also have "\<dots> = push_bit 16 major + (push_bit 8 minor + patch)"
    by (simp only: 1)
  also have "\<dots> = major * 65536 + minor * 256 + patch"
    by (simp add: push_bit_eq_mult)
  finally show ?thesis .
qed

lemma Qt_5_7_or_newer:
  assumes "minor < 256" "patch < 256"
  shows "QT_VERSION_CHECK 5 7 0 \<le> QT_VERSION_CHECK major minor patch \<longleftrightarrow>
         5 < major \<or> (major = 5 \<and> 7 \<le> minor)"
  using assms by (simp add: QT_VERSION_CHECK_arith) arith

section \<open>Claims about the initialization hook and the constructors\<close>

text \<open>
  C8. On Qt 5.7 or newer \<open>init\<close> sets the application attribute
  \<^verbatim>\<open>Qt::AA_UseHighDpiPixmaps\<close> and then forwards to the base class's \<^verbatim>\<open>init\<close>, which
  therefore runs on a world that has the attribute; on an older Qt it forwards to
  the base class on the unchanged world. The test \<^verbatim>\<open>QT_VERSION >= QT_VERSION_CHECK(5, 7, 0)\<close>
  holds exactly for major version above 5, or 5 with minor version at least 7.
\<close>

theorem init_sets_high_dpi_before_base:
  "(QT_VERSION_CHECK 5 7 0 \<le> QT_VERSION \<longrightarrow>
      init S QT_VERSION (d, w) =
        Superclass_init S (d, w\<lparr>attributes := insert AA_UseHighDpiPixmaps (attributes w)\<rparr>)) \<and>
   (QT_VERSION < QT_VERSION_CHECK 5 7 0 \<longrightarrow>
      init S QT_VERSION (d, w) = Superclass_init S (d, w)) \<and>
   (minor < 256 \<and> patch < 256 \<longrightarrow>
      (QT_VERSION_CHECK 5 7 0 \<le> QT_VERSION_CHECK major minor patch \<longleftrightarrow>
         5 < major \<or> (major = 5 \<and> 7 \<le> minor)))"
  by (simp add: init_def QApplication_setAttribute_def Qt_5_7_or_newer)

theorem init_sets_high_dpi_before_base_witness:
  "QT_VERSION_CHECK 5 7 0 \<le> QT_VERSION_CHECK 5 15 2 \<and>
   init example_base (QT_VERSION_CHECK 5 15 2) (example_pimpl, example_world) =
     Inr (example_pimpl, example_world\<lparr>attributes := {AA_UseHighDpiPixmaps}\<rparr>) \<and>
   QT_VERSION_CHECK 5 6 3 < QT_VERSION_CHECK 5 7 0 \<and>
   init example_base (QT_VERSION_CHECK 5 6 3) (example_pimpl, example_world) =
     Inr (example_pimpl, example_world)"
  using init_sets_high_dpi_before_base [where QT_VERSION = "QT_VERSION_CHECK 5 15 2"
      and S = example_base and d = example_pimpl and w = example_world
      and major = 5 and minor = 15 and patch = 2]
    init_sets_high_dpi_before_base [where QT_VERSION = "QT_VERSION_CHECK 5 6 3"
      and S = example_base and d = example_pimpl and w = example_world
      and major = 5 and minor = 6 and patch = 3]
  by (simp add: example_base_def example_world_def not_le)

text \<open>
  C9. The protected constructor is the base constructor and nothing more: its
  result does not depend on what the host's \<^verbatim>\<open>init\<close> does, so no effect of \<open>init\<close>
  occurs in it. The public constructor creates the private object, runs the base
  constructor and then calls \<open>init\<close>.
\<close>

theorem protected_constructor_does_not_init:
  "qnykAorticAppMainWindow_pimpl S this pimpl windowParent w =
     Superclass_MainWindow S this pimpl windowParent w \<and>
   qnykAorticAppMainWindow_pimpl (S\<lparr>Superclass_init := f\<rparr>) this pimpl windowParent w =
     qnykAorticAppMainWindow_pimpl S this pimpl windowParent w \<and>
   qnykAorticAppMainWindow S QT_VERSION this windowParent w =
     and_then (Superclass_Private S this w) (\<lambda>(pimpl, w).
     and_then (Superclass_MainWindow S this pimpl windowParent w) (init S QT_VERSION))"
  by (simp add: qnykAorticAppMainWindow_pimpl_def qnykAorticAppMainWindow_def
      qnykAorticAppMainWindowPrivate_def)

section \<open>Claims about the About handler\<close>

text \<open>
  C2. Every trigger of the About action builds an about dialog whose parent is
  the window, gives it the pixmap loaded from \<^verbatim>\<open>:/Logo.png\<close> as logo and shows it
  modally. The world changes in nothing else: one resource request and one
  dialog shown.
\<close>

theorem about_handler_shows_modal_dialog:
  "on_HelpAboutnykAorticAppAction_triggered rc this w =
     w\<lparr>resource_requests := resource_requests w @ ['':/Logo.png''],
       modal_dialogs := modal_dialogs w @
         [\<lparr>dlg_parent = this, dlg_logo = Some (rc '':/Logo.png'')\<rparr>]\<rparr>"
  by (simp add: on_HelpAboutnykAorticAppAction_triggered_def qSlicerAboutDialog_ctor_def
      setLogo_def exec_def QPixmap_fromFile_def)

section \<open>Claims about the UI-setup hook\<close>

text \<open>
  C1. When \<open>setupUi\<close> completes, its first phase did nothing but allocate the
  action, a child of the main window named \<^verbatim>\<open>HelpAboutnykAorticAppAction\<close> with text
  \<^verbatim>\<open>About\<close> followed by the application name; the base class's \<^verbatim>\<open>setupUi\<close> ran on
  that world; and the menus at the end are the menus the base call left, changed
  only in the inherited Help menu, which has the action appended at its end: one
  new action when the base call did not put it there itself. The layer touches no
  action object after the base call, so the action in the Help menu carries that
  name and text whenever the base call left the action as it received it.
\<close>

theorem setupUi_appends_about_action:
  assumes "setupUi S rc mainWindow (d, w) = Inr (d', w')"
  shows "\<exists>app w1 w2 hm.
     application w = Some app \<and>
     w1 = w\<lparr>actions := (actions w)(next_ptr w \<mapsto>
                    \<lparr>act_parent = Some (MainWindowRef mainWindow),
                     act_objectName = ''HelpAboutnykAorticAppAction'',
                     act_text = ''About '' @ applicationName app\<rparr>),
                  next_ptr := Suc (next_ptr w)\<rparr> \<and>
     setupUi_addActions mainWindow w = Inr (next_ptr w, w1) \<and>
     Superclass_setupUi S mainWindow (d, w1) = Inr (d', w2) \<and>
     menus w2 (HelpMenu d') = Some hm \<and>
     menus w' = (menus w2)(HelpMenu d' \<mapsto>
                        hm\<lparr>menu_actions := removeAll (next_ptr w) (menu_actions hm) @ [next_ptr w]\<rparr>) \<and>
     (next_ptr w \<notin> set (menu_actions hm) \<longrightarrow>
        map_option menu_actions (menus w' (HelpMenu d')) = Some (menu_actions hm @ [next_ptr w])) \<and>
     actions w' = actions w2 \<and>
     (actions w2 (next_ptr w) = actions w1 (next_ptr w) \<longrightarrow>
        actions w' (next_ptr w) = Some \<lparr>act_parent = Some (MainWindowRef mainWindow),
                     act_objectName = ''HelpAboutnykAorticAppAction'',
                     act_text = ''About '' @ applicationName app\<rparr>)"
proof -
  from setupUi_InrD [OF assms] obtain app w1 w2 hm mw dock where
    app: "application w = Some app" and
    w1: "w1 = w\<lparr>actions := (actions w)(next_ptr w \<mapsto>
                    \<lparr>act_parent = Some (MainWindowRef mainWindow),
                     act_objectName = ''HelpAboutnykAorticAppAction'',
                     act_text = ''About '' @ applicationName app\<rparr>),
                  next_ptr := Suc (next_ptr w)\<rparr>" and
    pre: "setupUi_addActions mainWindow w = Inr (next_ptr w, w1)" and
    base: "Superclass_setupUi S mainWindow (d, w1) = Inr (d', w2)" and
    hm: "menus w2 (HelpMenu d') = Some hm" and
    mw: "mainWindows w2 mainWindow = Some mw" and
    dock: "dockWidgets w2 (PanelDockWidget d') = Some dock" and
    w': "w' = w2\<lparr>menus := (menus w2)(HelpMenu d' \<mapsto>
                        hm\<lparr>menu_actions := removeAll (next_ptr w) (menu_actions hm) @ [next_ptr w]\<rparr>),
             mainWindows := (mainWindows w2)(mainWindow \<mapsto>
                        mw\<lparr>mw_windowIcon := IconFile '':/Icons/Medium/DesktopIcon.png''\<rparr>),
             labels := (labels w2)(next_ptr w2 \<mapsto>
                        \<lparr>lbl_parent = Some (WidgetRef (Suc (next_ptr w2))), lbl_objectName = ''LogoLabel'',
                         lbl_pixmap = Some (rc '':/LogoFull.png''),
                         lbl_alignment = Some {AlignLeft, AlignVCenter}, lbl_contentsMargins = (5, 0, 0, 0),
                         lbl_styleSheet = ''QLabel#LogoLabel { background-color: transparent; padding: 2px; margin-right: 10px; }'',
                         lbl_visible = True\<rparr>),
             widgets := (widgets w2)(Suc (next_ptr w2) \<mapsto>
                        \<lparr>wdg_parent = Some (DockWidgetRef (PanelDockWidget d')), wdg_minimumHeight = 25,
                         wdg_layout = Some (Suc (Suc (next_ptr w2)))\<rparr>),
             layouts := (layouts w2)(Suc (Suc (next_ptr w2)) \<mapsto>
                        \<lparr>lay_parent = Some (WidgetRef (Suc (next_ptr w2))), lay_contentsMargins = Some (0, 0, 0, 0),
                         lay_spacing = Some 10,
                         lay_items = [WidgetItem (LabelRef (next_ptr w2)), StretchItem 1]\<rparr>),
             dockWidgets := (dockWidgets w2)(PanelDockWidget d' \<mapsto>
                        dock\<lparr>dock_titleBarWidget := Some (WidgetRef (Suc (next_ptr w2)))\<rparr>),
             next_ptr := Suc (Suc (Suc (next_ptr w2))),
             debug_output := debug_output w2 @
                        [[DText ''Logo pixmap is'',
                          DText (if isNull (rc '':/LogoFull.png'') then ''NULL'' else ''valid''),
                          DText ''with size'', DSize (size_of (rc '':/LogoFull.png''))]],
             resource_requests := resource_requests w2 @
                        ['':/Icons/Medium/DesktopIcon.png'', '':/LogoFull.png'']\<rparr>"
    by blast
  have m: "menus w' = (menus w2)(HelpMenu d' \<mapsto>
                        hm\<lparr>menu_actions := removeAll (next_ptr w) (menu_actions hm) @ [next_ptr w]\<rparr>)"
    and a: "actions w' = actions w2"
    by (simp_all add: w')
  have a1: "actions w1 (next_ptr w) = Some \<lparr>act_parent = Some (MainWindowRef mainWindow),
                     act_objectName = ''HelpAboutnykAorticAppAction'',
                     act_text = ''About '' @ applicationName app\<rparr>"
    by (simp add: w1)
  show ?thesis
    using app w1 pre base hm m a a1
    by (intro exI [of _ app] exI [of _ w1] exI [of _ w2] exI [of _ hm]) simp
qed

theorem setupUi_appends_about_action_witness:
  "\<exists>d' w'. setupUi example_base example_rc 1 (example_pimpl, example_window) = Inr (d', w') \<and>
     HelpMenu d' = 15 \<and>
     menus w' 15 = Some \<lparr>menu_actions = [2], menu_visible = True\<rparr> \<and>
     actions w' 2 = Some \<lparr>act_parent = Some (MainWindowRef 1),
                           act_objectName = ''HelpAboutnykAorticAppAction'',
                           act_text = ''About nykAortic''\<rparr>"
proof -
  from example_completes obtain d' w' where
    run: "setupUi example_base example_rc 1 (example_pimpl, example_window) = Inr (d', w')"
    by blast
  from setupUi_appends_about_action [OF run] obtain app w1 w2 hm where
    app: "application example_window = Some app" and
    w1: "w1 = example_window\<lparr>actions := (actions example_window)(next_ptr example_window \<mapsto>
                    \<lparr>act_parent = Some (MainWindowRef 1),
                     act_objectName = ''HelpAboutnykAorticAppAction'',
                     act_text = ''About '' @ applicationName app\<rparr>),
                  next_ptr := Suc (next_ptr example_window)\<rparr>" and
    base: "Superclass_setupUi example_base 1 (example_pimpl, w1) = Inr (d', w2)" and
    hm: "menus w2 (HelpMenu d') = Some hm" and
    fresh: "next_ptr example_window \<notin> set (menu_actions hm) \<longrightarrow>
        map_option menu_actions (menus w' (HelpMenu d')) =
          Some (menu_actions hm @ [next_ptr example_window])" and
    kept: "actions w2 (next_ptr example_window) = actions w1 (next_ptr example_window) \<longrightarrow>
        actions w' (next_ptr example_window) =
          Some \<lparr>act_parent = Some (MainWindowRef 1),
                act_objectName = ''HelpAboutnykAorticAppAction'',
                act_text = ''About '' @ applicationName app\<rparr>" and
    menus': "menus w' = (menus w2)(HelpMenu d' \<mapsto>
        hm\<lparr>menu_actions := removeAll (next_ptr example_window) (menu_actions hm) @
          [next_ptr example_window]\<rparr>)"
    by blast
  from app have name: "applicationName app = ''nykAortic''"
    by (auto simp: example_window_def example_world_def)
  have n: "next_ptr example_window = 2"
    by (simp add: example_window_def example_world_def)
  from base have d': "HelpMenu d' = 15" and m2: "menus w2 15 = Some example_menu"
    and a2: "actions w2 = actions w1"
    by (auto simp: example_base_def)
  from hm d' m2 have hm': "hm = example_menu"
    by simp
  from kept a2 have "actions w' 2 = Some \<lparr>act_parent = Some (MainWindowRef 1),
                act_objectName = ''HelpAboutnykAorticAppAction'',
                act_text = ''About nykAortic''\<rparr>"
    by (simp add: n name)
  moreover from menus' have "menus w' 15 = Some \<lparr>menu_actions = [2], menu_visible = True\<rparr>"
    by (simp add: d' hm' n example_menu_def)
  ultimately show ?thesis
    using run d' by blast
qed

text \<open>
  C10. When \<open>setupUi\<close> completes, the menu bar and the File, Edit, View, Layout and
  Help menus are as visible as the base class's \<^verbatim>\<open>setupUi\<close> left them. The final
  world is the one the base call left, changed in the Help menu's action list, the
  main window's icon and the panel dock widget's title bar, with the new label,
  title bar and layout allocated, one debug line and two resource requests added.
\<close>

theorem setupUi_keeps_menu_visibility:
  assumes "setupUi S rc mainWindow (d, w) = Inr (d', w')"
  shows "\<exists>a w1 w2 hm mw dock.
     setupUi_addActions mainWindow w = Inr (a, w1) \<and>
     Superclass_setupUi S mainWindow (d, w1) = Inr (d', w2) \<and>
     map_option bar_visible (menuBars w' (menubar d')) = map_option bar_visible (menuBars w2 (menubar d')) \<and>
     map_option menu_visible (menus w' (FileMenu d')) = map_option menu_visible (menus w2 (FileMenu d')) \<and>
     map_option menu_visible (menus w' (EditMenu d')) = map_option menu_visible (menus w2 (EditMenu d')) \<and>
     map_option menu_visible (menus w' (ViewMenu d')) = map_option menu_visible (menus w2 (ViewMenu d')) \<and>
     map_option menu_visible (menus w' (LayoutMenu d')) = map_option menu_visible (menus w2 (LayoutMenu d')) \<and>
     map_option menu_visible (menus w' (HelpMenu d')) = map_option menu_visible (menus w2 (HelpMenu d')) \<and>
     menus w2 (HelpMenu d') = Some hm \<and>
     mainWindows w2 mainWindow = Some mw \<and>
     dockWidgets w2 (PanelDockWidget d') = Some dock \<and>
     w' = w2\<lparr>menus := (menus w2)(HelpMenu d' \<mapsto>
                        hm\<lparr>menu_actions := removeAll a (menu_actions hm) @ [a]\<rparr>),
             mainWindows := (mainWindows w2)(mainWindow \<mapsto>
                        mw\<lparr>mw_windowIcon := IconFile '':/Icons/Medium/DesktopIcon.png''\<rparr>),
             labels := (labels w2)(next_ptr w2 \<mapsto>
                        \<lparr>lbl_parent = Some (WidgetRef (Suc (next_ptr w2))), lbl_objectName = ''LogoLabel'',
                         lbl_pixmap = Some (rc '':/LogoFull.png''),
                         lbl_alignment = Some {AlignLeft, AlignVCenter}, lbl_contentsMargins = (5, 0, 0, 0),
                         lbl_styleSheet = ''QLabel#LogoLabel { background-color: transparent; padding: 2px; margin-right: 10px; }'',
                         lbl_visible = True\<rparr>),
             widgets := (widgets w2)(Suc (next_ptr w2) \<mapsto>
                        \<lparr>wdg_parent = Some (DockWidgetRef (PanelDockWidget d')), wdg_minimumHeight = 25,
                         wdg_layout = Some (Suc (Suc (next_ptr w2)))\<rparr>),
             layouts := (layouts w2)(Suc (Suc (next_ptr w2)) \<mapsto>
                        \<lparr>lay_parent = Some (WidgetRef (Suc (next_ptr w2))), lay_contentsMargins = Some (0, 0, 0, 0),
                         lay_spacing = Some 10,
                         lay_items = [WidgetItem (LabelRef (next_ptr w2)), StretchItem 1]\<rparr>),
             dockWidgets := (dockWidgets w2)(PanelDockWidget d' \<mapsto>
                        dock\<lparr>dock_titleBarWidget := Some (WidgetRef (Suc (next_ptr w2)))\<rparr>),
             next_ptr := Suc (Suc (Suc (next_ptr w2))),
             debug_output := debug_output w2 @
                        [[DText ''Logo pixmap is'',
                          DText (if isNull (rc '':/LogoFull.png'') then ''NULL'' else ''valid''),
                          DText ''with size'', DSize (size_of (rc '':/LogoFull.png''))]],
             resource_requests := resource_requests w2 @
                        ['':/Icons/Medium/DesktopIcon.png'', '':/LogoFull.png'']\<rparr>"
proof -
  from setupUi_InrD [OF assms] obtain app w1 w2 hm mw dock where
    pre: "setupUi_addActions mainWindow w = Inr (next_ptr w, w1)" and
    base: "Superclass_setupUi S mainWindow (d, w1) = Inr (d', w2)" and
    hm: "menus w2 (HelpMenu d') = Some hm" and
    mw: "mainWindows w2 mainWindow = Some mw" and
    dock: "dockWidgets w2 (PanelDockWidget d') = Some dock" and
    w': "w' = w2\<lparr>menus := (menus w2)(HelpMenu d' \<mapsto>
                        hm\<lparr>menu_actions := removeAll (next_ptr w) (menu_actions hm) @ [next_ptr w]\<rparr>),
             mainWindows := (mainWindows w2)(mainWindow \<mapsto>
                        mw\<lparr>mw_windowIcon := IconFile '':/Icons/Medium/DesktopIcon.png''\<rparr>),
             labels := (labels w2)(next_ptr w2 \<mapsto>
                        \<lparr>lbl_parent = Some (WidgetRef (Suc (next_ptr w2))), lbl_objectName = ''LogoLabel'',
                         lbl_pixmap = Some (rc '':/LogoFull.png''),
                         lbl_alignment = Some {AlignLeft, AlignVCenter}, lbl_contentsMargins = (5, 0, 0, 0),
                         lbl_styleSheet = ''QLabel#LogoLabel { background-color: transparent; padding: 2px; margin-right: 10px; }'',
                         lbl_visible = True\<rparr>),
             widgets := (widgets w2)(Suc (next_ptr w2) \<mapsto>
                        \<lparr>wdg_parent = Some (DockWidgetRef (PanelDockWidget d')), wdg_minimumHeight = 25,
                         wdg_layout = Some (Suc (Suc (next_ptr w2)))\<rparr>),
             layouts := (layouts w2)(Suc (Suc (next_ptr w2)) \<mapsto>
                        \<lparr>lay_parent = Some (WidgetRef (Suc (next_ptr w2))), lay_contentsMargins = Some (0, 0, 0, 0),
                         lay_spacing = Some 10,
                         lay_items = [WidgetItem (LabelRef (next_ptr w2)), StretchItem 1]\<rparr>),
             dockWidgets := (dockWidgets w2)(PanelDockWidget d' \<mapsto>
                        dock\<lparr>dock_titleBarWidget := Some (WidgetRef (Suc (next_ptr w2)))\<rparr>),
             next_ptr := Suc (Suc (Suc (next_ptr w2))),
             debug_output := debug_output w2 @
                        [[DText ''Logo pixmap is'',
                          DText (if isNull (rc '':/LogoFull.png'') then ''NULL'' else ''valid''),
                          DText ''with size'', DSize (size_of (rc '':/LogoFull.png''))]],
             resource_requests := resource_requests w2 @
                        ['':/Icons/Medium/DesktopIcon.png'', '':/LogoFull.png'']\<rparr>"
    by blast
  have bar: "menuBars w' = menuBars w2"
    by (simp add: w')
  have vis: "map_option menu_visible (menus w' p) = map_option menu_visible (menus w2 p)" for p
    using hm by (simp add: w')
  show ?thesis
    using pre base hm mw dock w' bar vis
    by (intro exI [of _ "next_ptr w"] exI [of _ w1] exI [of _ w2] exI [of _ hm] exI [of _ mw]
        exI [of _ dock]) (simp only: simp_thms)
qed

theorem setupUi_keeps_menu_visibility_witness:
  "\<exists>d' w'. setupUi example_base example_rc 1 (example_pimpl, example_window) = Inr (d', w') \<and>
     menubar d' = 10 \<and> FileMenu d' = 11 \<and> EditMenu d' = 12 \<and> ViewMenu d' = 13 \<and>
     LayoutMenu d' = 14 \<and> HelpMenu d' = 15 \<and>
     map_option bar_visible (menuBars w' 10) = Some True \<and>
     map_option menu_visible (menus w' 11) = Some True \<and>
     map_option menu_visible (menus w' 12) = Some True \<and>
     map_option menu_visible (menus w' 13) = Some True \<and>
     map_option menu_visible (menus w' 14) = Some True \<and>
     map_option menu_visible (menus w' 15) = Some True"
proof -
  from example_completes obtain d' w' where
    run: "setupUi example_base example_rc 1 (example_pimpl, example_window) = Inr (d', w')"
    by blast
  from setupUi_keeps_menu_visibility [OF run] obtain a w1 w2 where
    pre: "setupUi_addActions 1 example_window = Inr (a, w1)" and
    base: "Superclass_setupUi example_base 1 (example_pimpl, w1) = Inr (d', w2)" and
    vis: "map_option bar_visible (menuBars w' (menubar d')) = map_option bar_visible (menuBars w2 (menubar d'))"
      "map_option menu_visible (menus w' (FileMenu d')) = map_option menu_visible (menus w2 (FileMenu d'))"
      "map_option menu_visible (menus w' (EditMenu d')) = map_option menu_visible (menus w2 (EditMenu d'))"
      "map_option menu_visible (menus w' (ViewMenu d')) = map_option menu_visible (menus w2 (ViewMenu d'))"
      "map_option menu_visible (menus w' (LayoutMenu d')) = map_option menu_visible (menus w2 (LayoutMenu d'))"
      "map_option menu_visible (menus w' (HelpMenu d')) = map_option menu_visible (menus w2 (HelpMenu d'))"
    by blast
  from base have d': "menubar d' = 10" "FileMenu d' = 11" "EditMenu d' = 12" "ViewMenu d' = 13"
      "LayoutMenu d' = 14" "HelpMenu d' = 15"
    and w2: "map_option bar_visible (menuBars w2 10) = Some True"
      "map_option menu_visible (menus w2 11) = Some True"
      "map_option menu_visible (menus w2 12) = Some True"
      "map_option menu_visible (menus w2 13) = Some True"
      "map_option menu_visible (menus w2 14) = Some True"
      "map_option menu_visible (menus w2 15) = Some True"
    by (auto simp: example_base_def example_menu_def)
  from run vis d' w2 show ?thesis
    by simp
qed

section \<open>Claims about image resources\<close>

text \<open>
  C3. A missing image resource is no failure. Whether \<open>setupUi\<close> fails, and with
  which error, is the same for any two resource collections. When it completes,
  the label named \<^verbatim>\<open>LogoLabel\<close> is visible and has had installed on it whatever
  pixmap the collection gave for \<^verbatim>\<open>:/LogoFull.png\<close>, the null pixmap included (a
  label nobody set a pixmap on has \<open>None\<close>), and the run
  under any other collection completes in the same world except for that pixmap
  and the text of the last debug line. The About handler is total and installs
  whatever pixmap the collection gave for \<^verbatim>\<open>:/Logo.png\<close>; nothing else in its result
  depends on the collection.
\<close>

theorem missing_resource_is_no_failure:
  "(setupUi S rc mainWindow (d, w) = Inl e \<longleftrightarrow> setupUi S rc' mainWindow (d, w) = Inl e) \<and>
   (setupUi S rc mainWindow (d, w) = Inr (d', w') \<longrightarrow>
      (\<exists>l lab.
          labels w' l = Some lab \<and> lbl_objectName lab = ''LogoLabel'' \<and>
          lbl_pixmap lab = Some (rc '':/LogoFull.png'') \<and> lbl_visible lab \<and>
          setupUi S rc' mainWindow (d, w) =
            Inr (d', w'\<lparr>labels := (labels w')(l \<mapsto> lab\<lparr>lbl_pixmap := Some (rc' '':/LogoFull.png'')\<rparr>),
                       debug_output := butlast (debug_output w') @
                         [[DText ''Logo pixmap is'',
                           DText (if isNull (rc' '':/LogoFull.png'') then ''NULL'' else ''valid''),
                           DText ''with size'', DSize (size_of (rc' '':/LogoFull.png''))]]\<rparr>))) \<and>
   on_HelpAboutnykAorticAppAction_triggered rc this w =
     (on_HelpAboutnykAorticAppAction_triggered rc' this w)
       \<lparr>modal_dialogs := modal_dialogs w @
          [\<lparr>dlg_parent = this, dlg_logo = Some (rc '':/Logo.png'')\<rparr>]\<rparr>"
proof (intro conjI impI)
  show "setupUi S rc mainWindow (d, w) = Inl e \<longleftrightarrow> setupUi S rc' mainWindow (d, w) = Inl e"
    by (rule setupUi_error_independent)
next
  show "on_HelpAboutnykAorticAppAction_triggered rc this w =
     (on_HelpAboutnykAorticAppAction_triggered rc' this w)
       \<lparr>modal_dialogs := modal_dialogs w @
          [\<lparr>dlg_parent = this, dlg_logo = Some (rc '':/Logo.png'')\<rparr>]\<rparr>"
    by (simp add: on_HelpAboutnykAorticAppAction_triggered_eq)
next
  assume run: "setupUi S rc mainWindow (d, w) = Inr (d', w')"
  from setupUi_InrD [OF run] obtain app w1 w2 hm mw dock where
    pre: "setupUi_addActions mainWindow w = Inr (next_ptr w, w1)" and
    base: "Superclass_setupUi S mainWindow (d, w1) = Inr (d', w2)" and
    hm: "menus w2 (HelpMenu d') = Some hm" and
    mw: "mainWindows w2 mainWindow = Some mw" and
    dock: "dockWidgets w2 (PanelDockWidget d') = Some dock" and
    w': "w' = w2\<lparr>menus := (menus w2)(HelpMenu d' \<mapsto>
                        hm\<lparr>menu_actions := removeAll (next_ptr w) (menu_actions hm) @ [next_ptr w]\<rparr>),
             mainWindows := (mainWindows w2)(mainWindow \<mapsto>
                        mw\<lparr>mw_windowIcon := IconFile '':/Icons/Medium/DesktopIcon.png''\<rparr>),
             labels := (labels w2)(next_ptr w2 \<mapsto>
                        \<lparr>lbl_parent = Some (WidgetRef (Suc (next_ptr w2))), lbl_objectName = ''LogoLabel'',
                         lbl_pixmap = Some (rc '':/LogoFull.png''),
                         lbl_alignment = Some {AlignLeft, AlignVCenter}, lbl_contentsMargins = (5, 0, 0, 0),
                         lbl_styleSheet = ''QLabel#LogoLabel { background-color: transparent; padding: 2px; margin-right: 10px; }'',
                         lbl_visible = True\<rparr>),
             widgets := (widgets w2)(Suc (next_ptr w2) \<mapsto>
                        \<lparr>wdg_parent = Some (DockWidgetRef (PanelDockWidget d')), wdg_minimumHeight = 25,
                         wdg_layout = Some (Suc (Suc (next_ptr w2)))\<rparr>),
             layouts := (layouts w2)(Suc (Suc (next_ptr w2)) \<mapsto>
                        \<lparr>lay_parent = Some (WidgetRef (Suc (next_ptr w2))), lay_contentsMargins = Some (0, 0, 0, 0),
                         lay_spacing = Some 10,
                         lay_items = [WidgetItem (LabelRef (next_ptr w2)), StretchItem 1]\<rparr>),
             dockWidgets := (dockWidgets w2)(PanelDockWidget d' \<mapsto>
                        dock\<lparr>dock_titleBarWidget := Some (WidgetRef (Suc (next_ptr w2)))\<rparr>),
             next_ptr := Suc (Suc (Suc (next_ptr w2))),
             debug_output := debug_output w2 @
                        [[DText ''Logo pixmap is'',
                          DText (if isNull (rc '':/LogoFull.png'') then ''NULL'' else ''valid''),
                          DText ''with size'', DSize (size_of (rc '':/LogoFull.png''))]],
             resource_requests := resource_requests w2 @
                        ['':/Icons/Medium/DesktopIcon.png'', '':/LogoFull.png'']\<rparr>"
    by blast
  let ?l = "next_ptr w2"
  let ?lab = "\<lparr>lbl_parent = Some (WidgetRef (Suc (next_ptr w2))), lbl_objectName = ''LogoLabel'',
                         lbl_pixmap = Some (rc '':/LogoFull.png''),
                         lbl_alignment = Some {AlignLeft, AlignVCenter}, lbl_contentsMargins = (5, 0, 0, 0),
                         lbl_styleSheet = ''QLabel#LogoLabel { background-color: transparent; padding: 2px; margin-right: 10px; }'',
                         lbl_visible = True\<rparr>"
  have lab: "labels w' ?l = Some ?lab"
    by (simp add: w')
  have other: "setupUi S rc' mainWindow (d, w) =
            Inr (d', w'\<lparr>labels := (labels w')(?l \<mapsto> ?lab\<lparr>lbl_pixmap := Some (rc' '':/LogoFull.png'')\<rparr>),
                       debug_output := butlast (debug_output w') @
                         [[DText ''Logo pixmap is'',
                           DText (if isNull (rc' '':/LogoFull.png'') then ''NULL'' else ''valid''),
                           DText ''with size'', DSize (size_of (rc' '':/LogoFull.png''))]]\<rparr>)"
    using pre base hm mw dock
    by (simp add: setupUi_eq QMenu_addAction_eq setupUi_configure_eq w' split del: if_split)
  show "\<exists>l lab.
          labels w' l = Some lab \<and> lbl_objectName lab = ''LogoLabel'' \<and>
          lbl_pixmap lab = Some (rc '':/LogoFull.png'') \<and> lbl_visible lab \<and>
          setupUi S rc' mainWindow (d, w) =
            Inr (d', w'\<lparr>labels := (labels w')(l \<mapsto> lab\<lparr>lbl_pixmap := Some (rc' '':/LogoFull.png'')\<rparr>),
                       debug_output := butlast (debug_output w') @
                         [[DText ''Logo pixmap is'',
                           DText (if isNull (rc' '':/LogoFull.png'') then ''NULL'' else ''valid''),
                           DText ''with size'', DSize (size_of (rc' '':/LogoFull.png''))]]\<rparr>)"
    using lab other by (intro exI [of _ ?l] exI [of _ ?lab]) simp
qed


theorem missing_resource_is_no_failure_witness:
  "\<exists>d' w' l lab.
     setupUi example_base missing_rc 1 (example_pimpl, example_window) = Inr (d', w') \<and>
     labels w' l = Some lab \<and> lbl_objectName lab = ''LogoLabel'' \<and>
     lbl_pixmap lab = Some NullPixmap \<and> lbl_visible lab \<and>
     setupUi example_base example_rc 1 (example_pimpl, example_window) =
       Inr (d', w'\<lparr>labels := (labels w')(l \<mapsto> lab\<lparr>lbl_pixmap := Some (Pixmap 320 64)\<rparr>),
                  debug_output := butlast (debug_output w') @
                    [[DText ''Logo pixmap is'', DText ''valid'', DText ''with size'',
                      DSize (320, 64)]]\<rparr>) \<and>
     modal_dialogs (on_HelpAboutnykAorticAppAction_triggered missing_rc 1 example_window) =
       [\<lparr>dlg_parent = 1, dlg_logo = Some NullPixmap\<rparr>]"
proof -
  from example_completes obtain d' w' where
    run: "setupUi example_base missing_rc 1 (example_pimpl, example_window) = Inr (d', w')"
    by blast
  note inst = missing_resource_is_no_failure [where S = example_base and rc = missing_rc
      and rc' = example_rc and mainWindow = 1 and d = example_pimpl and w = example_window
      and d' = d' and w' = w' and this = 1]
  from inst run obtain l lab where
    lab: "labels w' l = Some lab" "lbl_objectName lab = ''LogoLabel''"
      "lbl_pixmap lab = Some (missing_rc '':/LogoFull.png'')" "lbl_visible lab" and
    other: "setupUi example_base example_rc 1 (example_pimpl, example_window) =
            Inr (d', w'\<lparr>labels := (labels w')(l \<mapsto> lab\<lparr>lbl_pixmap := Some (example_rc '':/LogoFull.png'')\<rparr>),
                       debug_output := butlast (debug_output w') @
                         [[DText ''Logo pixmap is'',
                           DText (if isNull (example_rc '':/LogoFull.png'') then ''NULL'' else ''valid''),
                           DText ''with size'', DSize (size_of (example_rc '':/LogoFull.png''))]]\<rparr>)"
    by blast
  from inst have dlg: "on_HelpAboutnykAorticAppAction_triggered missing_rc 1 example_window =
     (on_HelpAboutnykAorticAppAction_triggered example_rc 1 example_window)
       \<lparr>modal_dialogs := modal_dialogs example_window @
          [\<lparr>dlg_parent = 1, dlg_logo = Some (missing_rc '':/Logo.png'')\<rparr>]\<rparr>"
    by blast
  have "modal_dialogs (on_HelpAboutnykAorticAppAction_triggered missing_rc 1 example_window) =
       [\<lparr>dlg_parent = 1, dlg_logo = Some NullPixmap\<rparr>]"
    unfolding dlg by (simp add: example_window_def example_world_def missing_rc_def)
  with run lab other show ?thesis
    by (intro exI [of _ d'] exI [of _ w'] exI [of _ l] exI [of _ lab])
      (simp add: missing_rc_def example_rc_def)
qed

text \<open>
  C4, as stated: the set of resource names the layer asks for has two elements.
  It fails on the example session, which asks for three.
\<close>

theorem two_resources_counterexample:
  "map_sum id (\<lambda>(d, w). (resource_requests w, card (set (resource_requests w)) = 2)) example_session =
     Inr (['':/Icons/Medium/DesktopIcon.png'', '':/LogoFull.png'', '':/Logo.png''], False)"
  by (simp add: example_session_def example_host_def qnykAorticAppMainWindow_def
      qnykAorticAppMainWindowPrivate_def init_def QApplication_setAttribute_def
      on_HelpAboutnykAorticAppAction_triggered_eq example_eval)

text \<open>
  C4, amended. The layer names three image resources: \<open>setupUi\<close> asks for the
  application icon \<^verbatim>\<open>:/Icons/Medium/DesktopIcon.png\<close> and the logo \<^verbatim>\<open>:/LogoFull.png\<close>,
  in this order and after the base call, the About handler asks for the logo
  \<^verbatim>\<open>:/Logo.png\<close>, and \<open>init\<close> and the first phase of \<open>setupUi\<close> ask for none.
\<close>

theorem layer_requests_three_resources:
  "(\<exists>w0. init S QT_VERSION (d, w) = Superclass_init S (d, w0) \<and>
          resource_requests w0 = resource_requests w) \<and>
   (setupUi S rc mainWindow (d, w) = Inr (d', w') \<longrightarrow>
      (\<exists>a w1 w2.
          setupUi_addActions mainWindow w = Inr (a, w1) \<and>
          resource_requests w1 = resource_requests w \<and>
          Superclass_setupUi S mainWindow (d, w1) = Inr (d', w2) \<and>
          resource_requests w' = resource_requests w2 @
            ['':/Icons/Medium/DesktopIcon.png'', '':/LogoFull.png''])) \<and>
   resource_requests (on_HelpAboutnykAorticAppAction_triggered rc this w) =
     resource_requests w @ ['':/Logo.png''] \<and>
   card {'':/Icons/Medium/DesktopIcon.png'', '':/LogoFull.png'', '':/Logo.png''} = 3"
proof (intro conjI impI)
  show "\<exists>w0. init S QT_VERSION (d, w) = Superclass_init S (d, w0) \<and>
          resource_requests w0 = resource_requests w"
  proof (cases "QT_VERSION_CHECK 5 7 0 \<le> QT_VERSION")
    case True
    then show ?thesis
      by (intro exI [of _ "QApplication_setAttribute AA_UseHighDpiPixmaps w"])
        (simp add: init_def QApplication_setAttribute_def)
  next
    case False
    then show ?thesis
      by (intro exI [of _ w]) (simp add: init_def)
  qed
next
  show "resource_requests (on_HelpAboutnykAorticAppAction_triggered rc this w) =
     resource_requests w @ ['':/Logo.png'']"
    by (simp add: on_HelpAboutnykAorticAppAction_triggered_eq)
next
  show "card {'':/Icons/Medium/DesktopIcon.png'', '':/LogoFull.png'', '':/Logo.png''} = 3"
    by simp
next
  assume run: "setupUi S rc mainWindow (d, w) = Inr (d', w')"
  from setupUi_InrD [OF run] obtain app w1 w2 where
    app: "application w = Some app" and
    w1: "w1 = w\<lparr>actions := (actions w)(next_ptr w \<mapsto>
                    \<lparr>act_parent = Some (MainWindowRef mainWindow),
                     act_objectName = ''HelpAboutnykAorticAppAction'',
                     act_text = ''About '' @ applicationName app\<rparr>),
                  next_ptr := Suc (next_ptr w)\<rparr>" and
    pre: "setupUi_addActions mainWindow w = Inr (next_ptr w, w1)" and
    base: "Superclass_setupUi S mainWindow (d, w1) = Inr (d', w2)" and
    req: "resource_requests w' = resource_requests w2 @
            ['':/Icons/Medium/DesktopIcon.png'', '':/LogoFull.png'']"
    by auto
  have "resource_requests w1 = resource_requests w"
    by (simp add: w1)
  with pre base req show "\<exists>a w1 w2.
          setupUi_addActions mainWindow w = Inr (a, w1) \<and>
          resource_requests w1 = resource_requests w \<and>
          Superclass_setupUi S mainWindow (d, w1) = Inr (d', w2) \<and>
          resource_requests w' = resource_requests w2 @
            ['':/Icons/Medium/DesktopIcon.png'', '':/LogoFull.png'']"
    by blast
qed

theorem layer_requests_three_resources_witness:
  "\<exists>d' w'. setupUi example_base example_rc 1 (example_pimpl, example_window) = Inr (d', w') \<and>
     resource_requests w' = ['':/Icons/Medium/DesktopIcon.png'', '':/LogoFull.png''] \<and>
     resource_requests (on_HelpAboutnykAorticAppAction_triggered example_rc 1 w') =
       ['':/Icons/Medium/DesktopIcon.png'', '':/LogoFull.png'', '':/Logo.png'']"
proof -
  from example_completes obtain d' w' where
    run: "setupUi example_base example_rc 1 (example_pimpl, example_window) = Inr (d', w')"
    by blast
  note inst = layer_requests_three_resources [where S = example_base and rc = example_rc
      and mainWindow = 1 and d = example_pimpl and w = example_window and d' = d' and w' = w']
  from inst run obtain a w1 w2 where
    pre: "setupUi_addActions 1 example_window = Inr (a, w1)" and
    r1: "resource_requests w1 = resource_requests example_window" and
    base: "Superclass_setupUi example_base 1 (example_pimpl, w1) = Inr (d', w2)" and
    r': "resource_requests w' = resource_requests w2 @
            ['':/Icons/Medium/DesktopIcon.png'', '':/LogoFull.png'']"
    by blast
  from base have "resource_requests w2 = resource_requests w1"
    by (auto simp: example_base_def)
  with r1 r' have w': "resource_requests w' = ['':/Icons/Medium/DesktopIcon.png'', '':/LogoFull.png'']"
    by (simp add: example_window_def example_world_def)
  from layer_requests_three_resources [where rc = example_rc and this = 1 and w = w']
  have "resource_requests (on_HelpAboutnykAorticAppAction_triggered example_rc 1 w') =
     resource_requests w' @ ['':/Logo.png'']"
    by blast
  with run w' show ?thesis
    by simp
qed

section \<open>Claims about the layer as a whole\<close>

text \<open>
  C5, as stated: the extra behaviour of every override is confined to the window
  icon, the logo, the title bar and the About action, so \<open>init\<close> would leave the
  application attributes as the base class's \<^verbatim>\<open>init\<close> alone leaves them. Under Qt
  5.15.2 on the example host it does not: \<open>init\<close> ends with the attribute
  \<^verbatim>\<open>AA_UseHighDpiPixmaps\<close> set, the base alone with none.
\<close>

theorem init_extra_effect_counterexample:
  "map_sum id (\<lambda>(d, w). attributes w)
     (init example_base (QT_VERSION_CHECK 5 15 2) (example_pimpl, example_world)) =
       Inr {AA_UseHighDpiPixmaps} \<and>
   map_sum id (\<lambda>(d, w). attributes w)
     (Superclass_init example_base (example_pimpl, example_world)) = Inr {}"
  by (simp add: init_def QApplication_setAttribute_def QT_VERSION_CHECK_def example_base_def
      example_world_def)

text \<open>
  C5, amended. The layer has exactly three operations with behaviour of their own,
  \<open>init\<close>, \<open>setupUi\<close> and the About handler; its constructors only forward to the
  base constructors, the public one then calling \<open>init\<close>. \<open>init\<close> forwards to the
  base class's \<^verbatim>\<open>init\<close> and adds one thing, the high-DPI attribute on Qt 5.7 or
  newer. \<open>setupUi\<close> forwards to the base class's \<^verbatim>\<open>setupUi\<close>: before the call it only
  allocates the About action, and the world at the end is the one the base call
  left, changed in the Help menu's action list, the window icon, the logo label,
  the title bar with its layout, the dock widget's title bar, one debug line about
  the logo and the two resource requests, and in nothing else. The About handler
  loads the logo and shows the dialog, and does nothing else.
\<close>

theorem overrides_extra_behaviour:
  "qnykAorticAppMainWindowPrivate S object w = Superclass_Private S object w \<and>
   qnykAorticAppMainWindow_pimpl S this pimpl windowParent w =
     Superclass_MainWindow S this pimpl windowParent w \<and>
   qnykAorticAppMainWindow S QT_VERSION this windowParent w =
     and_then (Superclass_Private S this w) (\<lambda>(pimpl, w).
     and_then (Superclass_MainWindow S this pimpl windowParent w) (init S QT_VERSION)) \<and>
   init S QT_VERSION (d, w) =
     Superclass_init S
       (d, w\<lparr>attributes := (if QT_VERSION_CHECK 5 7 0 \<le> QT_VERSION
                              then insert AA_UseHighDpiPixmaps (attributes w)
                              else attributes w)\<rparr>) \<and>
   (setupUi S rc mainWindow (d, w) = Inr (d', w') \<longrightarrow>
      (\<exists>app w1 w2 hm mw dock.
          application w = Some app \<and>
          w1 = w\<lparr>actions := (actions w)(next_ptr w \<mapsto>
                    \<lparr>act_parent = Some (MainWindowRef mainWindow),
                     act_objectName = ''HelpAboutnykAorticAppAction'',
                     act_text = ''About '' @ applicationName app\<rparr>),
                  next_ptr := Suc (next_ptr w)\<rparr> \<and>
          Superclass_setupUi S mainWindow (d, w1) = Inr (d', w2) \<and>
          menus w2 (HelpMenu d') = Some hm \<and>
          mainWindows w2 mainWindow = Some mw \<and>
          dockWidgets w2 (PanelDockWidget d') = Some dock \<and>
          w' = w2\<lparr>menus := (menus w2)(HelpMenu d' \<mapsto>
                        hm\<lparr>menu_actions := removeAll (next_ptr w) (menu_actions hm) @ [next_ptr w]\<rparr>),
             mainWindows := (mainWindows w2)(mainWindow \<mapsto>
                        mw\<lparr>mw_windowIcon := IconFile '':/Icons/Medium/DesktopIcon.png''\<rparr>),
             labels := (labels w2)(next_ptr w2 \<mapsto>
                        \<lparr>lbl_parent = Some (WidgetRef (Suc (next_ptr w2))), lbl_objectName = ''LogoLabel'',
                         lbl_pixmap = Some (rc '':/LogoFull.png''),
                         lbl_alignment = Some {AlignLeft, AlignVCenter}, lbl_contentsMargins = (5, 0, 0, 0),
                         lbl_styleSheet = ''QLabel#LogoLabel { background-color: transparent; padding: 2px; margin-right: 10px; }'',
                         lbl_visible = True\<rparr>),
             widgets := (widgets w2)(Suc (next_ptr w2) \<mapsto>
                        \<lparr>wdg_parent = Some (DockWidgetRef (PanelDockWidget d')), wdg_minimumHeight = 25,
                         wdg_layout = Some (Suc (Suc (next_ptr w2)))\<rparr>),
             layouts := (layouts w2)(Suc (Suc (next_ptr w2)) \<mapsto>
                        \<lparr>lay_parent = Some (WidgetRef (Suc (next_ptr w2))), lay_contentsMargins = Some (0, 0, 0, 0),
                         lay_spacing = Some 10,
                         lay_items = [WidgetItem (LabelRef (next_ptr w2)), StretchItem 1]\<rparr>),
             dockWidgets := (dockWidgets w2)(PanelDockWidget d' \<mapsto>
                        dock\<lparr>dock_titleBarWidget := Some (WidgetRef (Suc (next_ptr w2)))\<rparr>),
             next_ptr := Suc (Suc (Suc (next_ptr w2))),
             debug_output := debug_output w2 @
                        [[DText ''Logo pixmap is'',
                          DText (if isNull (rc '':/LogoFull.png'') then ''NULL'' else ''valid''),
                          DText ''with size'', DSize (size_of (rc '':/LogoFull.png''))]],
             resource_requests := resource_requests w2 @
                        ['':/Icons/Medium/DesktopIcon.png'', '':/LogoFull.png'']\<rparr>)) \<and>
   on_HelpAboutnykAorticAppAction_triggered rc this w =
     w\<lparr>resource_requests := resource_requests w @ ['':/Logo.png''],
       modal_dialogs := modal_dialogs w @
         [\<lparr>dlg_parent = this, dlg_logo = Some (rc '':/Logo.png'')\<rparr>]\<rparr>"
proof (intro conjI impI)
  show "qnykAorticAppMainWindowPrivate S object w = Superclass_Private S object w"
    by (simp add: qnykAorticAppMainWindowPrivate_def)
next
  show "qnykAorticAppMainWindow_pimpl S this pimpl windowParent w =
     Superclass_MainWindow S this pimpl windowParent w"
    by (simp add: qnykAorticAppMainWindow_pimpl_def)
next
  show "qnykAorticAppMainWindow S QT_VERSION this windowParent w =
     and_then (Superclass_Private S this w) (\<lambda>(pimpl, w).
     and_then (Superclass_MainWindow S this pimpl windowParent w) (init S QT_VERSION))"
    by (simp add: qnykAorticAppMainWindow_def qnykAorticAppMainWindowPrivate_def)
next
  show "init S QT_VERSION (d, w) =
     Superclass_init S
       (d, w\<lparr>attributes := (if QT_VERSION_CHECK 5 7 0 \<le> QT_VERSION
                              then insert AA_UseHighDpiPixmaps (attributes w)
                              else attributes w)\<rparr>)"
    by (simp add: init_def QApplication_setAttribute_def)
next
  show "on_HelpAboutnykAorticAppAction_triggered rc this w =
     w\<lparr>resource_requests := resource_requests w @ ['':/Logo.png''],
       modal_dialogs := modal_dialogs w @
         [\<lparr>dlg_parent = this, dlg_logo = Some (rc '':/Logo.png'')\<rparr>]\<rparr>"
    by (rule on_HelpAboutnykAorticAppAction_triggered_eq)
next
  assume run: "setupUi S rc mainWindow (d, w) = Inr (d', w')"
  from setupUi_InrD [OF run] obtain app w1 w2 hm mw dock where
    app: "application w = Some app" and
    w1: "w1 = w\<lparr>actions := (actions w)(next_ptr w \<mapsto>
                    \<lparr>act_parent = Some (MainWindowRef mainWindow),
                     act_objectName = ''HelpAboutnykAorticAppAction'',
                     act_text = ''About '' @ applicationName app\<rparr>),
                  next_ptr := Suc (next_ptr w)\<rparr>" and
    pre: "setupUi_addActions mainWindow w = Inr (next_ptr w, w1)" and
    base: "Superclass_setupUi S mainWindow (d, w1) = Inr (d', w2)" and
    hm: "menus w2 (HelpMenu d') = Some hm" and
    mw: "mainWindows w2 mainWindow = Some mw" and
    dock: "dockWidgets w2 (PanelDockWidget d') = Some dock" and
    w': "w' = w2\<lparr>menus := (menus w2)(HelpMenu d' \<mapsto>
                        hm\<lparr>menu_actions := removeAll (next_ptr w) (menu_actions hm) @ [next_ptr w]\<rparr>),
             mainWindows := (mainWindows w2)(mainWindow \<mapsto>
                        mw\<lparr>mw_windowIcon := IconFile '':/Icons/Medium/DesktopIcon.png''\<rparr>),
             labels := (labels w2)(next_ptr w2 \<mapsto>
                        \<lparr>lbl_parent = Some (WidgetRef (Suc (next_ptr w2))), lbl_objectName = ''LogoLabel'',
                         lbl_pixmap = Some (rc '':/LogoFull.png''),
                         lbl_alignment = Some {AlignLeft, AlignVCenter}, lbl_contentsMargins = (5, 0, 0, 0),
                         lbl_styleSheet = ''QLabel#LogoLabel { background-color: transparent; padding: 2px; margin-right: 10px; }'',
                         lbl_visible = True\<rparr>),
             widgets := (widgets w2)(Suc (next_ptr w2) \<mapsto>
                        \<lparr>wdg_parent = Some (DockWidgetRef (PanelDockWidget d')), wdg_minimumHeight = 25,
                         wdg_layout = Some (Suc (Suc (next_ptr w2)))\<rparr>),
             layouts := (layouts w2)(Suc (Suc (next_ptr w2)) \<mapsto>
                        \<lparr>lay_parent = Some (WidgetRef (Suc (next_ptr w2))), lay_contentsMargins = Some (0, 0, 0, 0),
                         lay_spacing = Some 10,
                         lay_items = [WidgetItem (LabelRef (next_ptr w2)), StretchItem 1]\<rparr>),
             dockWidgets := (dockWidgets w2)(PanelDockWidget d' \<mapsto>
                        dock\<lparr>dock_titleBarWidget := Some (WidgetRef (Suc (next_ptr w2)))\<rparr>),
             next_ptr := Suc (Suc (Suc (next_ptr w2))),
             debug_output := debug_output w2 @
                        [[DText ''Logo pixmap is'',
                          DText (if isNull (rc '':/LogoFull.png'') then ''NULL'' else ''valid''),
                          DText ''with size'', DSize (size_of (rc '':/LogoFull.png''))]],
             resource_requests := resource_requests w2 @
                        ['':/Icons/Medium/DesktopIcon.png'', '':/LogoFull.png'']\<rparr>"
    by blast
  show "\<exists>app w1 w2 hm mw dock.
          application w = Some app \<and>
          w1 = w\<lparr>actions := (actions w)(next_ptr w \<mapsto>
                    \<lparr>act_parent = Some (MainWindowRef mainWindow),
                     act_objectName = ''HelpAboutnykAorticAppAction'',
                     act_text = ''About '' @ applicationName app\<rparr>),
                  next_ptr := Suc (next_ptr w)\<rparr> \<and>
          Superclass_setupUi S mainWindow (d, w1) = Inr (d', w2) \<and>
          menus w2 (HelpMenu d') = Some hm \<and>
          mainWindows w2 mainWindow = Some mw \<and>
          dockWidgets w2 (PanelDockWidget d') = Some dock \<and>
          w' = w2\<lparr>menus := (menus w2)(HelpMenu d' \<mapsto>
                        hm\<lparr>menu_actions := removeAll (next_ptr w) (menu_actions hm) @ [next_ptr w]\<rparr>),
             mainWindows := (mainWindows w2)(mainWindow \<mapsto>
                        mw\<lparr>mw_windowIcon := IconFile '':/Icons/Medium/DesktopIcon.png''\<rparr>),
             labels := (labels w2)(next_ptr w2 \<mapsto>
                        \<lparr>lbl_parent = Some (WidgetRef (Suc (next_ptr w2))), lbl_objectName = ''LogoLabel'',
                         lbl_pixmap = Some (rc '':/LogoFull.png''),
                         lbl_alignment = Some {AlignLeft, AlignVCenter}, lbl_contentsMargins = (5, 0, 0, 0),
                         lbl_styleSheet = ''QLabel#LogoLabel { background-color: transparent; padding: 2px; margin-right: 10px; }'',
                         lbl_visible = True\<rparr>),
             widgets := (widgets w2)(Suc (next_ptr w2) \<mapsto>
                        \<lparr>wdg_parent = Some (DockWidgetRef (PanelDockWidget d')), wdg_minimumHeight = 25,
                         wdg_layout = Some (Suc (Suc (next_ptr w2)))\<rparr>),
             layouts := (layouts w2)(Suc (Suc (next_ptr w2)) \<mapsto>
                        \<lparr>lay_parent = Some (WidgetRef (Suc (next_ptr w2))), lay_contentsMargins = Some (0, 0, 0, 0),
                         lay_spacing = Some 10,
                         lay_items = [WidgetItem (LabelRef (next_ptr w2)), StretchItem 1]\<rparr>),
             dockWidgets := (dockWidgets w2)(PanelDockWidget d' \<mapsto>
                        dock\<lparr>dock_titleBarWidget := Some (WidgetRef (Suc (next_ptr w2)))\<rparr>),
             next_ptr := Suc (Suc (Suc (next_ptr w2))),
             debug_output := debug_output w2 @
                        [[DText ''Logo pixmap is'',
                          DText (if isNull (rc '':/LogoFull.png'') then ''NULL'' else ''valid''),
                          DText ''with size'', DSize (size_of (rc '':/LogoFull.png''))]],
             resource_requests := resource_requests w2 @
                        ['':/Icons/Medium/DesktopIcon.png'', '':/LogoFull.png'']\<rparr>"
    using app w1 base hm mw dock w'
    by (intro exI [of _ app] exI [of _ w1] exI [of _ w2] exI [of _ hm] exI [of _ mw]
        exI [of _ dock]) (simp only: simp_thms)
qed

theorem overrides_extra_behaviour_witness:
  "\<exists>d' w'. setupUi example_base example_rc 1 (example_pimpl, example_window) = Inr (d', w') \<and>
     application w' = Some \<lparr>applicationName = ''nykAortic''\<rparr> \<and> attributes w' = {} \<and>
     map_option mw_windowIcon (mainWindows w' 1) = Some (IconFile '':/Icons/Medium/DesktopIcon.png'') \<and>
     map_option menu_actions (menus w' 15) = Some [2] \<and>
     map_option menu_visible (menus w' 11) = Some True \<and>
     modal_dialogs w' = []"
proof -
  from example_completes obtain d' w' where
    run: "setupUi example_base example_rc 1 (example_pimpl, example_window) = Inr (d', w')"
    by blast
  note inst = overrides_extra_behaviour [where S = example_base and rc = example_rc
      and mainWindow = 1 and d = example_pimpl and w = example_window and d' = d' and w' = w']
  from inst run obtain app w1 w2 hm mw dock where
    app: "application example_window = Some app" and
    w1: "w1 = example_window\<lparr>actions := (actions example_window)(next_ptr example_window \<mapsto>
                    \<lparr>act_parent = Some (MainWindowRef 1),
                     act_objectName = ''HelpAboutnykAorticAppAction'',
                     act_text = ''About '' @ applicationName app\<rparr>),
                  next_ptr := Suc (next_ptr example_window)\<rparr>" and
    base: "Superclass_setupUi example_base 1 (example_pimpl, w1) = Inr (d', w2)" and
    hm: "menus w2 (HelpMenu d') = Some hm" and
    mw: "mainWindows w2 1 = Some mw" and
    w': "w' = w2\<lparr>menus := (menus w2)(HelpMenu d' \<mapsto>
                        hm\<lparr>menu_actions := removeAll (next_ptr example_window) (menu_actions hm) @ [next_ptr example_window]\<rparr>),
             mainWindows := (mainWindows w2)(1 \<mapsto>
                        mw\<lparr>mw_windowIcon := IconFile '':/Icons/Medium/DesktopIcon.png''\<rparr>),
             labels := (labels w2)(next_ptr w2 \<mapsto>
                        \<lparr>lbl_parent = Some (WidgetRef (Suc (next_ptr w2))), lbl_objectName = ''LogoLabel'',
                         lbl_pixmap = Some (example_rc '':/LogoFull.png''),
                         lbl_alignment = Some {AlignLeft, AlignVCenter}, lbl_contentsMargins = (5, 0, 0, 0),
                         lbl_styleSheet = ''QLabel#LogoLabel { background-color: transparent; padding: 2px; margin-right: 10px; }'',
                         lbl_visible = True\<rparr>),
             widgets := (widgets w2)(Suc (next_ptr w2) \<mapsto>
                        \<lparr>wdg_parent = Some (DockWidgetRef (PanelDockWidget d')), wdg_minimumHeight = 25,
                         wdg_layout = Some (Suc (Suc (next_ptr w2)))\<rparr>),
             layouts := (layouts w2)(Suc (Suc (next_ptr w2)) \<mapsto>
                        \<lparr>lay_parent = Some (WidgetRef (Suc (next_ptr w2))), lay_contentsMargins = Some (0, 0, 0, 0),
                         lay_spacing = Some 10,
                         lay_items = [WidgetItem (LabelRef (next_ptr w2)), StretchItem 1]\<rparr>),
             dockWidgets := (dockWidgets w2)(PanelDockWidget d' \<mapsto>
                        dock\<lparr>dock_titleBarWidget := Some (WidgetRef (Suc (next_ptr w2)))\<rparr>),
             next_ptr := Suc (Suc (Suc (next_ptr w2))),
             debug_output := debug_output w2 @
                        [[DText ''Logo pixmap is'',
                          DText (if isNull (example_rc '':/LogoFull.png'') then ''NULL'' else ''valid''),
                          DText ''with size'', DSize (size_of (example_rc '':/LogoFull.png''))]],
             resource_requests := resource_requests w2 @
                        ['':/Icons/Medium/DesktopIcon.png'', '':/LogoFull.png'']\<rparr>"
    by blast
  have n: "next_ptr example_window = 2"
    by (simp add: example_window_def example_world_def)
  from base have d': "HelpMenu d' = 15"
    and w2: "application w2 = application w1" "attributes w2 = attributes w1"
      "modal_dialogs w2 = modal_dialogs w1" "menus w2 15 = Some example_menu"
      "menus w2 11 = Some example_menu" "mainWindows w2 = mainWindows w1"
    by (auto simp: example_base_def)
  from hm d' w2 have hm': "hm = example_menu"
    by simp
  have "application w' = Some \<lparr>applicationName = ''nykAortic''\<rparr>" "attributes w' = {}"
    "modal_dialogs w' = []"
    "map_option mw_windowIcon (mainWindows w' 1) = Some (IconFile '':/Icons/Medium/DesktopIcon.png'')"
    "map_option menu_actions (menus w' 15) = Some [2]"
    "map_option menu_visible (menus w' 11) = Some True"
    using mw by (simp_all add: w' w2 w1 d' hm' n example_window_def example_world_def example_menu_def)
  with run show ?thesis
    by blast
qed

text \<open>
  C6, as stated: after \<open>setupUi\<close> the private object holds references to the label,
  the title bar, the layout and the action. On the example host all four objects
  exist after the run and none of them is among the pointers the private object
  stores.
\<close>

theorem pimpl_holds_widgets_counterexample:
  "map_sum id
     (\<lambda>(d, w). (labels w 17 \<noteq> None, widgets w 18 \<noteq> None, layouts w 19 \<noteq> None, actions w 2 \<noteq> None,
                filter (\<lambda>r. r \<in> set (pimpl_refs d)) [LabelRef 17, WidgetRef 18, LayoutRef 19, ActionRef 2]))
     (example_run example_rc) = Inr (True, True, True, True, [])"
  by (simp add: example_run_def example_eval pimpl_refs_def)

text \<open>
  C6, amended. \<open>setupUi\<close> stores nothing in the private object: the object it
  returns is the one the base class's \<^verbatim>\<open>setupUi\<close> returned. The four objects are
  locals of the hook and are held by the toolkit's object tree at the end of the
  hook: the action is an entry of the Help menu and, whenever the base call left
  it as it received it, a child of the main window; the title bar is the panel
  dock widget's title bar and child; the layout is installed on the title bar;
  the label is the layout's first item and a child of the title bar.
\<close>

theorem widgets_live_in_object_tree:
  assumes "setupUi S rc mainWindow (d, w) = Inr (d', w')"
  shows "\<exists>app w1 w2 hm dock.
     application w = Some app \<and>
     w1 = w\<lparr>actions := (actions w)(next_ptr w \<mapsto>
                    \<lparr>act_parent = Some (MainWindowRef mainWindow),
                     act_objectName = ''HelpAboutnykAorticAppAction'',
                     act_text = ''About '' @ applicationName app\<rparr>),
                  next_ptr := Suc (next_ptr w)\<rparr> \<and>
     Superclass_setupUi S mainWindow (d, w1) = Inr (d', w2) \<and>
     menus w2 (HelpMenu d') = Some hm \<and>
     dockWidgets w2 (PanelDockWidget d') = Some dock \<and>
     actions w' = actions w2 \<and>
     (actions w2 (next_ptr w) = actions w1 (next_ptr w) \<longrightarrow>
        actions w' (next_ptr w) = Some \<lparr>act_parent = Some (MainWindowRef mainWindow),
                     act_objectName = ''HelpAboutnykAorticAppAction'',
                     act_text = ''About '' @ applicationName app\<rparr>) \<and>
     menus w' = (menus w2)(HelpMenu d' \<mapsto>
                        hm\<lparr>menu_actions := removeAll (next_ptr w) (menu_actions hm) @ [next_ptr w]\<rparr>) \<and>
     dockWidgets w' = (dockWidgets w2)(PanelDockWidget d' \<mapsto>
                        dock\<lparr>dock_titleBarWidget := Some (WidgetRef (Suc (next_ptr w2)))\<rparr>) \<and>
     widgets w' = (widgets w2)(Suc (next_ptr w2) \<mapsto>
                        \<lparr>wdg_parent = Some (DockWidgetRef (PanelDockWidget d')), wdg_minimumHeight = 25,
                         wdg_layout = Some (Suc (Suc (next_ptr w2)))\<rparr>) \<and>
     layouts w' = (layouts w2)(Suc (Suc (next_ptr w2)) \<mapsto>
                        \<lparr>lay_parent = Some (WidgetRef (Suc (next_ptr w2))), lay_contentsMargins = Some (0, 0, 0, 0),
                         lay_spacing = Some 10,
                         lay_items = [WidgetItem (LabelRef (next_ptr w2)), StretchItem 1]\<rparr>) \<and>
     labels w' = (labels w2)(next_ptr w2 \<mapsto>
                        \<lparr>lbl_parent = Some (WidgetRef (Suc (next_ptr w2))), lbl_objectName = ''LogoLabel'',
                         lbl_pixmap = Some (rc '':/LogoFull.png''),
                         lbl_alignment = Some {AlignLeft, AlignVCenter}, lbl_contentsMargins = (5, 0, 0, 0),
                         lbl_styleSheet = ''QLabel#LogoLabel { background-color: transparent; padding: 2px; margin-right: 10px; }'',
                         lbl_visible = True\<rparr>)"
proof -
  from setupUi_InrD [OF assms] obtain app w1 w2 hm mw dock where
    app: "application w = Some app" and
    w1: "w1 = w\<lparr>actions := (actions w)(next_ptr w \<mapsto>
                    \<lparr>act_parent = Some (MainWindowRef mainWindow),
                     act_objectName = ''HelpAboutnykAorticAppAction'',
                     act_text = ''About '' @ applicationName app\<rparr>),
                  next_ptr := Suc (next_ptr w)\<rparr>" and
    pre: "setupUi_addActions mainWindow w = Inr (next_ptr w, w1)" and
    base: "Superclass_setupUi S mainWindow (d, w1) = Inr (d', w2)" and
    hm: "menus w2 (HelpMenu d') = Some hm" and
    mw: "mainWindows w2 mainWindow = Some mw" and
    dock: "dockWidgets w2 (PanelDockWidget d') = Some dock" and
    w': "w' = w2\<lparr>menus := (menus w2)(HelpMenu d' \<mapsto>
                        hm\<lparr>menu_actions := removeAll (next_ptr w) (menu_actions hm) @ [next_ptr w]\<rparr>),
             mainWindows := (mainWindows w2)(mainWindow \<mapsto>
                        mw\<lparr>mw_windowIcon := IconFile '':/Icons/Medium/DesktopIcon.png''\<rparr>),
             labels := (labels w2)(next_ptr w2 \<mapsto>
                        \<lparr>lbl_parent = Some (WidgetRef (Suc (next_ptr w2))), lbl_objectName = ''LogoLabel'',
                         lbl_pixmap = Some (rc '':/LogoFull.png''),
                         lbl_alignment = Some {AlignLeft, AlignVCenter}, lbl_contentsMargins = (5, 0, 0, 0),
                         lbl_styleSheet = ''QLabel#LogoLabel { background-color: transparent; padding: 2px; margin-right: 10px; }'',
                         lbl_visible = True\<rparr>),
             widgets := (widgets w2)(Suc (next_ptr w2) \<mapsto>
                        \<lparr>wdg_parent = Some (DockWidgetRef (PanelDockWidget d')), wdg_minimumHeight = 25,
                         wdg_layout = Some (Suc (Suc (next_ptr w2)))\<rparr>),
             layouts := (layouts w2)(Suc (Suc (next_ptr w2)) \<mapsto>
                        \<lparr>lay_parent = Some (WidgetRef (Suc (next_ptr w2))), lay_contentsMargins = Some (0, 0, 0, 0),
                         lay_spacing = Some 10,
                         lay_items = [WidgetItem (LabelRef (next_ptr w2)), StretchItem 1]\<rparr>),
             dockWidgets := (dockWidgets w2)(PanelDockWidget d' \<mapsto>
                        dock\<lparr>dock_titleBarWidget := Some (WidgetRef (Suc (next_ptr w2)))\<rparr>),
             next_ptr := Suc (Suc (Suc (next_ptr w2))),
             debug_output := debug_output w2 @
                        [[DText ''Logo pixmap is'',
                          DText (if isNull (rc '':/LogoFull.png'') then ''NULL'' else ''valid''),
                          DText ''with size'', DSize (size_of (rc '':/LogoFull.png''))]],
             resource_requests := resource_requests w2 @
                        ['':/Icons/Medium/DesktopIcon.png'', '':/LogoFull.png'']\<rparr>"
    by blast
  have a1: "actions w1 (next_ptr w) = Some \<lparr>act_parent = Some (MainWindowRef mainWindow),
                     act_objectName = ''HelpAboutnykAorticAppAction'',
                     act_text = ''About '' @ applicationName app\<rparr>"
    by (simp add: w1)
  have heaps: "actions w' = actions w2"
    "menus w' = (menus w2)(HelpMenu d' \<mapsto>
                        hm\<lparr>menu_actions := removeAll (next_ptr w) (menu_actions hm) @ [next_ptr w]\<rparr>)"
    "dockWidgets w' = (dockWidgets w2)(PanelDockWidget d' \<mapsto>
                        dock\<lparr>dock_titleBarWidget := Some (WidgetRef (Suc (next_ptr w2)))\<rparr>)"
    "widgets w' = (widgets w2)(Suc (next_ptr w2) \<mapsto>
                        \<lparr>wdg_parent = Some (DockWidgetRef (PanelDockWidget d')), wdg_minimumHeight = 25,
                         wdg_layout = Some (Suc (Suc (next_ptr w2)))\<rparr>)"
    "layouts w' = (layouts w2)(Suc (Suc (next_ptr w2)) \<mapsto>
                        \<lparr>lay_parent = Some (WidgetRef (Suc (next_ptr w2))), lay_contentsMargins = Some (0, 0, 0, 0),
                         lay_spacing = Some 10,
                         lay_items = [WidgetItem (LabelRef (next_ptr w2)), StretchItem 1]\<rparr>)"
    "labels w' = (labels w2)(next_ptr w2 \<mapsto>
                        \<lparr>lbl_parent = Some (WidgetRef (Suc (next_ptr w2))), lbl_objectName = ''LogoLabel'',
                         lbl_pixmap = Some (rc '':/LogoFull.png''),
                         lbl_alignment = Some {AlignLeft, AlignVCenter}, lbl_contentsMargins = (5, 0, 0, 0),
                         lbl_styleSheet = ''QLabel#LogoLabel { background-color: transparent; padding: 2px; margin-right: 10px; }'',
                         lbl_visible = True\<rparr>)"
    by (simp_all add: w')
  show ?thesis
    using app w1 base hm dock a1 heaps
    by (intro exI [of _ app] exI [of _ w1] exI [of _ w2] exI [of _ hm] exI [of _ dock]) simp
qed

theorem widgets_live_in_object_tree_witness:
  "\<exists>d' w'. setupUi example_base example_rc 1 (example_pimpl, example_window) = Inr (d', w') \<and>
     pimpl_refs d' = [MainWindowRef 1, MenuBarRef 10, MenuRef 11, MenuRef 12, MenuRef 13,
                      MenuRef 14, MenuRef 15, DockWidgetRef 16] \<and>
     map_option act_parent (actions w' 2) = Some (Some (MainWindowRef 1)) \<and>
     map_option menu_actions (menus w' 15) = Some [2] \<and>
     map_option dock_titleBarWidget (dockWidgets w' 16) = Some (Some (WidgetRef 18)) \<and>
     map_option wdg_parent (widgets w' 18) = Some (Some (DockWidgetRef 16)) \<and>
     map_option wdg_layout (widgets w' 18) = Some (Some 19) \<and>
     map_option lay_items (layouts w' 19) = Some [WidgetItem (LabelRef 17), StretchItem 1] \<and>
     map_option lbl_parent (labels w' 17) = Some (Some (WidgetRef 18))"
proof -
  from example_completes obtain d' w' where
    run: "setupUi example_base example_rc 1 (example_pimpl, example_window) = Inr (d', w')"
    by blast
  from widgets_live_in_object_tree [OF run] obtain app w1 w2 hm dock where
    app: "application example_window = Some app" and
    w1: "w1 = example_window\<lparr>actions := (actions example_window)(next_ptr example_window \<mapsto>
                    \<lparr>act_parent = Some (MainWindowRef 1),
                     act_objectName = ''HelpAboutnykAorticAppAction'',
                     act_text = ''About '' @ applicationName app\<rparr>),
                  next_ptr := Suc (next_ptr example_window)\<rparr>" and
    base: "Superclass_setupUi example_base 1 (example_pimpl, w1) = Inr (d', w2)" and
    hm: "menus w2 (HelpMenu d') = Some hm" and
    kept: "actions w2 (next_ptr example_window) = actions w1 (next_ptr example_window) \<longrightarrow>
        actions w' (next_ptr example_window) =
          Some \<lparr>act_parent = Some (MainWindowRef 1),
                act_objectName = ''HelpAboutnykAorticAppAction'',
                act_text = ''About '' @ applicationName app\<rparr>" and
    tree: "menus w' = (menus w2)(HelpMenu d' \<mapsto>
             hm\<lparr>menu_actions := removeAll (next_ptr example_window) (menu_actions hm) @
               [next_ptr example_window]\<rparr>)"
      "dockWidgets w' = (dockWidgets w2)(PanelDockWidget d' \<mapsto>
                        dock\<lparr>dock_titleBarWidget := Some (WidgetRef (Suc (next_ptr w2)))\<rparr>)"
      "widgets w' = (widgets w2)(Suc (next_ptr w2) \<mapsto>
                        \<lparr>wdg_parent = Some (DockWidgetRef (PanelDockWidget d')), wdg_minimumHeight = 25,
                         wdg_layout = Some (Suc (Suc (next_ptr w2)))\<rparr>)"
      "layouts w' = (layouts w2)(Suc (Suc (next_ptr w2)) \<mapsto>
                        \<lparr>lay_parent = Some (WidgetRef (Suc (next_ptr w2))), lay_contentsMargins = Some (0, 0, 0, 0),
                         lay_spacing = Some 10,
                         lay_items = [WidgetItem (LabelRef (next_ptr w2)), StretchItem 1]\<rparr>)"
      "labels w' = (labels w2)(next_ptr w2 \<mapsto>
                        \<lparr>lbl_parent = Some (WidgetRef (Suc (next_ptr w2))), lbl_objectName = ''LogoLabel'',
                         lbl_pixmap = Some (example_rc '':/LogoFull.png''),
                         lbl_alignment = Some {AlignLeft, AlignVCenter}, lbl_contentsMargins = (5, 0, 0, 0),
                         lbl_styleSheet = ''QLabel#LogoLabel { background-color: transparent; padding: 2px; margin-right: 10px; }'',
                         lbl_visible = True\<rparr>)"
    by blast
  have n: "next_ptr example_window = 2"
    by (simp add: example_window_def example_world_def)
  from base have d': "d' = example_pimpl\<lparr>menubar := 10, FileMenu := 11, EditMenu := 12,
      ViewMenu := 13, LayoutMenu := 14, HelpMenu := 15, PanelDockWidget := 16\<rparr>"
    and n2: "next_ptr w2 = 17" and m2: "menus w2 15 = Some example_menu"
    and a2: "actions w2 = actions w1"
    by (auto simp: example_base_def)
  from hm d' m2 have hm': "hm = example_menu"
    by simp
  from kept a2 have act: "map_option act_parent (actions w' 2) = Some (Some (MainWindowRef 1))"
    by (simp add: n)
  from run act tree show ?thesis
    by (simp add: d' n n2 hm' pimpl_refs_def example_pimpl_def example_menu_def)
qed

end
